theory Spec2Isabelle
  imports Main
begin

section \<open>Data model (supabase/create\_tables.sql)\<close>

text \<open>
  Every table of \<^verbatim>\<open>create_tables.sql\<close> is a list of rows, in insertion order. A
  \<^verbatim>\<open>uuid\<close> is an opaque identifier; the value \<^verbatim>\<open>gen_random_uuid()\<close> gives a new row
  is a parameter of the inserting operation. A nullable \<^verbatim>\<open>text\<close> column is a
  \<open>string option\<close>, a \<^verbatim>\<open>not null\<close> column a plain value. A \<^verbatim>\<open>decimal(10,2)\<close> amount
  is an integer number of hundredths. The \<^verbatim>\<open>created_at\<close>/\<^verbatim>\<open>updated_at\<close> columns play no
  part in any policy or handler and are left out.
\<close>

type_synonym uuid = nat

datatype role = Supplier | Vendor | Superadmin

datatype approval_status = ApprovalPending | Approved | Rejected

datatype order_status = Pending | Confirmed | Shipped | Delivered | Cancelled

record user_role =
  ur_id :: uuid
  ur_user_id :: uuid
  ur_role :: role
  ur_approval_status :: approval_status

record supplier_profile =
  sp_id :: uuid
  sp_user_id :: uuid
  sp_full_name :: "string option"
  sp_business_name :: "string option"
  sp_business_type :: "string option"
  sp_business_address :: "string option"
  sp_contact_number :: "string option"
  sp_fssai_license :: "string option"
  sp_other_certifications :: "string list option"
  sp_avatar_url :: "string option"

record vendor_profile =
  vp_id :: uuid
  vp_user_id :: uuid
  vp_full_name :: "string option"
  vp_company_name :: "string option"
  vp_contact_number :: "string option"
  vp_avatar_url :: "string option"

record supplier =
  s_id :: uuid
  s_user_id :: uuid
  s_name :: string
  s_contact_email :: "string option"
  s_contact_phone :: "string option"
  s_address :: "string option"
  s_logo_url :: "string option"
  s_website :: "string option"
  s_status :: "string option"

record product =
  p_id :: uuid
  p_name :: string
  p_description :: "string option"
  p_unit_price :: "int option"
  p_stock_quantity :: "int option"
  p_min_stock_level :: "int option"
  p_sku :: "string option"
  p_image_url :: "string option"
  p_status :: "string option"
  p_supplier_id :: uuid

record order =
  o_id :: uuid
  o_user_id :: uuid
  o_product_id :: uuid
  o_supplier_id :: uuid
  o_quantity :: int
  o_unit_price :: int
  o_total_amount :: int
  o_status :: order_status

record db =
  user_roles :: "user_role list"
  supplier_profiles :: "supplier_profile list"
  vendor_profiles :: "vendor_profile list"
  suppliers :: "supplier list"
  products :: "product list"
  orders :: "order list"

text \<open>
  What a statement sent to the database can fail with: a row-level-security
  \<^verbatim>\<open>with check\<close> violation; PostgreSQL's error 42P17, "infinite recursion detected in
  policy for relation", raised while the policies are attached to the statement; or a
  violated column or table constraint.
\<close>

datatype constraint_kind = UniqueViolation | NotNullViolation | ForeignKeyViolation

datatype error = PolicyError | PolicyRecursion | ConstraintError constraint_kind

text \<open>
  \<^verbatim>\<open>auth.uid()\<close> is the identity of the caller, \<open>None\<close> for a request that carries
  no session. A comparison with a null \<^verbatim>\<open>auth.uid()\<close> is not true.
\<close>

type_synonym caller = "uuid option"

text \<open>The client's \<^verbatim>\<open>.single()\<close>: the row when exactly one row matches, no data otherwise.\<close>

fun single :: "'a list \<Rightarrow> 'a option" where
  "single [x] = Some x"
| "single _ = None"

text \<open>
  The \<^verbatim>\<open>data\<close> of \<^verbatim>\<open>const { data } = await ... .single()\<close>: null when the
  statement failed, whose error the caller then does not look at.
\<close>

definition single_data :: "error + 'a list \<Rightarrow> 'a option" where
  "single_data r = (case r of Inl e \<Rightarrow> None | Inr rows \<Rightarrow> single rows)"

section \<open>Policies that read the table they guard\<close>

text \<open>
  The policies are those of \<^verbatim>\<open>create_tables.sql\<close>. Some of them hold a sub-select,
  \<^verbatim>\<open>exists (select 1 from ... )\<close>; \<open>policy_subselects\<close> lists, for a command on a
  table, the tables its policies sub-select: user\_roles for "Superadmins can view all roles"
  and "Superadmins can update all roles", suppliers for the three policies of products and
  for the supplier side of the select and update policies of orders.
\<close>

datatype table = UserRoles | SupplierProfiles | VendorProfiles | Suppliers | Products | Orders

datatype command = SelectCmd | InsertCmd | UpdateCmd | DeleteCmd

fun policy_subselects :: "command \<Rightarrow> table \<Rightarrow> table list" where
  "policy_subselects SelectCmd UserRoles = [UserRoles]"
| "policy_subselects UpdateCmd UserRoles = [UserRoles]"
| "policy_subselects InsertCmd Products = [Suppliers]"
| "policy_subselects UpdateCmd Products = [Suppliers]"
| "policy_subselects DeleteCmd Products = [Suppliers]"
| "policy_subselects SelectCmd Orders = [Suppliers]"
| "policy_subselects UpdateCmd Orders = [Suppliers]"
| "policy_subselects cmd t = []"

definition all_tables :: "table list" where
  "all_tables = [UserRoles, SupplierProfiles, VendorProfiles, Suppliers, Products, Orders]"

text \<open>
  PostgreSQL attaches the policies of a table to every statement or sub-select that reads
  it, and then does the same for the sub-selects inside those policies. When it comes back
  to a table whose policies it is still attaching, it stops with error 42P17.
  \<open>policy_loops inactive t\<close>: a sub-select reads \<open>t\<close>, and \<open>inactive\<close> are the
  tables whose policies are not being attached at that moment.
\<close>

function policy_loops :: "table list \<Rightarrow> table \<Rightarrow> bool" where
  "policy_loops inactive t =
     (if t \<in> set inactive
      then list_ex (policy_loops (removeAll t inactive)) (policy_subselects SelectCmd t)
      else True)"
  by pat_completeness auto
termination
  by (relation "measure (\<lambda>(inactive, t). length inactive)") (auto simp: length_removeAll_less)

declare policy_loops.simps [simp del]

text \<open>
  \<open>cmds\<close> are the commands whose policies a statement on \<open>t\<close> has to pass: the
  select policies for a read, the update and the select policies for an update with a
  filter, the insert policies alone for an insert that returns nothing. Only a statement on
  user\_roles can meet the recursion (\<open>other_tables_no_recursion\<close> below), so the
  operations on the other tables are written without the test.
\<close>

definition policy_recursion :: "command list \<Rightarrow> table \<Rightarrow> bool" where
  "policy_recursion cmds t =
     list_ex (\<lambda>cmd. list_ex (policy_loops (removeAll t all_tables)) (policy_subselects cmd t)) cmds"

section \<open>Row-level security of user\_roles\<close>

text \<open>
  \<^verbatim>\<open>exists (select 1 from user_roles ur where ur.user_id = auth.uid() and ur.role = 'superadmin')\<close>
\<close>

definition is_superadmin :: "db \<Rightarrow> caller \<Rightarrow> bool" where
  "is_superadmin d c =
     list_ex (\<lambda>ur. Some (ur_user_id ur) = c \<and> ur_role ur = Superadmin) (user_roles d)"

text \<open>
  Policies "Users can view their own role" and "Superadmins can view all roles"
  (\<^verbatim>\<open>for select using\<close>): a row that satisfies neither would be left out of the
  result. The second policy sub-selects user\_roles itself, so the read fails before any row
  is looked at.
\<close>

definition user_roles_select_policy :: "db \<Rightarrow> caller \<Rightarrow> user_role \<Rightarrow> bool" where
  "user_roles_select_policy d c ur = (c = Some (ur_user_id ur) \<or> is_superadmin d c)"

definition select_user_roles ::
  "db \<Rightarrow> caller \<Rightarrow> (user_role \<Rightarrow> bool) \<Rightarrow> error + user_role list" where
  "select_user_roles d c flt =
     (if policy_recursion [SelectCmd] UserRoles then Inl PolicyRecursion
      else Inr (filter (\<lambda>ur. user_roles_select_policy d c ur \<and> flt ur) (user_roles d)))"

text \<open>
  Policy "Users can insert their own role" (\<^verbatim>\<open>for insert with check (auth.uid() = user_id)\<close>,
  no sub-select; the client's insert returns nothing, so no select policy is attached),
  then \<^verbatim>\<open>role text not null check (role in (...))\<close> (a missing or unlisted role is \<open>None\<close>),
  then the primary key and \<^verbatim>\<open>user_id ... unique\<close>.
\<close>

definition insert_user_role ::
  "db \<Rightarrow> caller \<Rightarrow> uuid \<Rightarrow> uuid \<Rightarrow> role option \<Rightarrow> approval_status \<Rightarrow> error + db" where
  "insert_user_role d c new_id uid r st =
     (if c \<noteq> Some uid then Inl PolicyError
      else case r of
        None \<Rightarrow> Inl (ConstraintError NotNullViolation)
      | Some r' \<Rightarrow>
          if list_ex (\<lambda>ur. ur_id ur = new_id \<or> ur_user_id ur = uid) (user_roles d)
          then Inl (ConstraintError UniqueViolation)
          else Inr (d\<lparr>user_roles := user_roles d @
                 [\<lparr>ur_id = new_id, ur_user_id = uid, ur_role = r', ur_approval_status = st\<rparr>]\<rparr>))"

text \<open>
  Policy "Superadmins can update all roles" is the only update policy of the table, a
  \<^verbatim>\<open>for update using\<close> policy. The statement
  \<^verbatim>\<open>update({ approval_status }).eq('user_id', userId)\<close> has to pass it and, as it reads
  \<^verbatim>\<open>user_id\<close>, the select policies. Both sub-select user\_roles, so the statement fails
  with error 42P17 before any row is looked at. Were it not for that, it would change the
  rows that match the filter and satisfy the policy, skip every other row without an error,
  and return the rows it changed.
\<close>

definition update_approval_status ::
  "db \<Rightarrow> caller \<Rightarrow> uuid \<Rightarrow> approval_status \<Rightarrow> error + (user_role list \<times> db)" where
  "update_approval_status d c uid st =
     (if policy_recursion [UpdateCmd, SelectCmd] UserRoles then Inl PolicyRecursion
      else let hit = (\<lambda>ur. ur_user_id ur = uid \<and> is_superadmin d c);
               rows = map (\<lambda>ur. if hit ur then ur\<lparr>ur_approval_status := st\<rparr> else ur)
                        (user_roles d)
           in Inr (filter hit rows, d\<lparr>user_roles := rows\<rparr>))"

section \<open>Approvals page: handleApproveSupplier, handleRejectSupplier\<close>

text \<open>
  What a handler shows: the title of a success toast; an error toast with its fixed
  description; or an error toast whose description is \<^verbatim>\<open>error.message\<close>.
\<close>

datatype toast = Toast string | ErrorToast string | ErrorToastOf error

definition handleApproveSupplier :: "db \<Rightarrow> caller \<Rightarrow> uuid \<Rightarrow> db \<times> toast" where
  "handleApproveSupplier d c userId =
     (case update_approval_status d c userId Approved of
        Inl e \<Rightarrow> (d, ErrorToast ''Failed to approve supplier. Please try again.'')
      | Inr (rows, d') \<Rightarrow> (d', Toast ''Supplier Approved''))"

definition handleRejectSupplier :: "db \<Rightarrow> caller \<Rightarrow> uuid \<Rightarrow> db \<times> toast" where
  "handleRejectSupplier d c userId =
     (case update_approval_status d c userId Rejected of
        Inl e \<Rightarrow> (d, ErrorToast ''Failed to reject supplier. Please try again.'')
      | Inr (rows, d') \<Rightarrow> (d', Toast ''Supplier Rejected''))"

section \<open>Row-level security of suppliers, profiles, products and orders\<close>

text \<open>
  Policy "Anyone can view suppliers" (\<^verbatim>\<open>using (true)\<close>); "Users can insert their own
  supplier record" (\<^verbatim>\<open>with check (auth.uid() = user_id)\<close>); \<^verbatim>\<open>name text not null\<close>;
  the primary key and \<^verbatim>\<open>user_id ... unique\<close>. A \<open>status\<close> that the statement leaves
  out takes the column default \<^verbatim>\<open>'active'\<close>. The result holds the inserted row
  (\<^verbatim>\<open>.select().single()\<close>).
\<close>

definition select_suppliers :: "db \<Rightarrow> (supplier \<Rightarrow> bool) \<Rightarrow> supplier list" where
  "select_suppliers d flt = filter flt (suppliers d)"

definition insert_supplier ::
  "db \<Rightarrow> caller \<Rightarrow> uuid \<Rightarrow> uuid \<Rightarrow> string option \<Rightarrow> string option \<Rightarrow> string option
     \<Rightarrow> string option \<Rightarrow> error + (supplier \<times> db)" where
  "insert_supplier d c new_id uid name contact_email address status =
     (if c \<noteq> Some uid then Inl PolicyError
      else case name of
        None \<Rightarrow> Inl (ConstraintError NotNullViolation)
      | Some n \<Rightarrow>
          if list_ex (\<lambda>s. s_id s = new_id \<or> s_user_id s = uid) (suppliers d)
          then Inl (ConstraintError UniqueViolation)
          else let row = \<lparr>s_id = new_id, s_user_id = uid, s_name = n,
                          s_contact_email = contact_email, s_contact_phone = None,
                          s_address = address, s_logo_url = None, s_website = None,
                          s_status = (case status of None \<Rightarrow> Some ''active'' | Some st \<Rightarrow> Some st)\<rparr>
               in Inr (row, d\<lparr>suppliers := suppliers d @ [row]\<rparr>))"

text \<open>
  supplier\_profiles: "Users can view their own supplier profile"
  (\<^verbatim>\<open>for select using (auth.uid() = user_id)\<close>); "Users can insert their own supplier
  profile".
\<close>

definition supplier_profiles_select_policy :: "caller \<Rightarrow> supplier_profile \<Rightarrow> bool" where
  "supplier_profiles_select_policy c p = (c = Some (sp_user_id p))"

definition select_supplier_profiles ::
  "db \<Rightarrow> caller \<Rightarrow> (supplier_profile \<Rightarrow> bool) \<Rightarrow> supplier_profile list" where
  "select_supplier_profiles d c flt =
     filter (\<lambda>p. supplier_profiles_select_policy c p \<and> flt p) (supplier_profiles d)"

text \<open>
  The trigger function \<^verbatim>\<open>create_supplier_for_user\<close>, run after the new profile row is in
  the table: it reads \<^verbatim>\<open>business_name\<close> and \<^verbatim>\<open>contact_number\<close> back from
  supplier\_profiles by \<^verbatim>\<open>new.user_id\<close> and inserts a suppliers row with \<^verbatim>\<open>user_id\<close>,
  \<^verbatim>\<open>name\<close> and \<^verbatim>\<open>contact_email\<close> only. It runs with the rights of the caller.
\<close>

definition create_supplier_for_user ::
  "db \<Rightarrow> caller \<Rightarrow> supplier_profile \<Rightarrow> uuid \<Rightarrow> error + db" where
  "create_supplier_for_user d c new trigger_id =
     (let sel = single (select_supplier_profiles d c (\<lambda>p. sp_user_id p = sp_user_id new));
          business_name = Option.bind sel sp_business_name;
          contact_number = Option.bind sel sp_contact_number
      in case insert_supplier d c trigger_id (sp_user_id new) business_name contact_number None None of
           Inl e \<Rightarrow> Inl e
         | Inr (row, d') \<Rightarrow> Inr d')"

text \<open>
  An insert into supplier\_profiles: the policy check, the primary key and
  \<^verbatim>\<open>user_id ... unique\<close>, then \<^verbatim>\<open>create_supplier_trigger\<close>
  (\<^verbatim>\<open>after insert ... for each row\<close>). An error in the trigger aborts the statement, and
  the profile row is not kept.
\<close>

definition insert_supplier_profile ::
  "db \<Rightarrow> caller \<Rightarrow> supplier_profile \<Rightarrow> uuid \<Rightarrow> error + db" where
  "insert_supplier_profile d c row trigger_id =
     (if c \<noteq> Some (sp_user_id row) then Inl PolicyError
      else if list_ex (\<lambda>p. sp_id p = sp_id row \<or> sp_user_id p = sp_user_id row) (supplier_profiles d)
      then Inl (ConstraintError UniqueViolation)
      else create_supplier_for_user
             (d\<lparr>supplier_profiles := supplier_profiles d @ [row]\<rparr>) c row trigger_id)"

definition insert_vendor_profile :: "db \<Rightarrow> caller \<Rightarrow> vendor_profile \<Rightarrow> error + db" where
  "insert_vendor_profile d c row =
     (if c \<noteq> Some (vp_user_id row) then Inl PolicyError
      else if list_ex (\<lambda>p. vp_id p = vp_id row \<or> vp_user_id p = vp_user_id row) (vendor_profiles d)
      then Inl (ConstraintError UniqueViolation)
      else Inr (d\<lparr>vendor_profiles := vendor_profiles d @ [row]\<rparr>))"

text \<open>
  \<^verbatim>\<open>exists (select 1 from suppliers s where s.id = supplier_id and s.user_id = auth.uid())\<close>,
  the predicate of the products policies and of the supplier side of the orders policies.
\<close>

definition owns_supplier :: "db \<Rightarrow> caller \<Rightarrow> uuid \<Rightarrow> bool" where
  "owns_supplier d c sid = list_ex (\<lambda>s. s_id s = sid \<and> Some (s_user_id s) = c) (suppliers d)"

text \<open>
  products: "Anyone can view products"; insert, update and delete for the owner of the
  referenced suppliers row; \<^verbatim>\<open>name text not null\<close>; the primary key; the foreign key
  \<^verbatim>\<open>supplier_id ... references suppliers(id)\<close>. A delete of a product that an order
  references violates \<^verbatim>\<open>orders.product_id\<close>'s foreign key.
\<close>

definition insert_product :: "db \<Rightarrow> caller \<Rightarrow> product \<Rightarrow> error + db" where
  "insert_product d c row =
     (if \<not> owns_supplier d c (p_supplier_id row) then Inl PolicyError
      else if list_ex (\<lambda>p. p_id p = p_id row) (products d)
      then Inl (ConstraintError UniqueViolation)
      else if \<not> list_ex (\<lambda>s. s_id s = p_supplier_id row) (suppliers d)
      then Inl (ConstraintError ForeignKeyViolation)
      else Inr (d\<lparr>products := products d @ [row]\<rparr>))"

definition update_product ::
  "db \<Rightarrow> caller \<Rightarrow> uuid \<Rightarrow> (product \<Rightarrow> product) \<Rightarrow> error + (product list \<times> db)" where
  "update_product d c pid patch =
     (let hit = (\<lambda>p. p_id p = pid \<and> owns_supplier d c (p_supplier_id p));
          set_cols = (\<lambda>p. (patch p)\<lparr>p_id := p_id p, p_supplier_id := p_supplier_id p\<rparr>);
          rows = map (\<lambda>p. if hit p then set_cols p else p) (products d)
      in Inr (filter hit rows, d\<lparr>products := rows\<rparr>))"

definition delete_product :: "db \<Rightarrow> caller \<Rightarrow> uuid \<Rightarrow> error + db" where
  "delete_product d c pid =
     (let hit = (\<lambda>p. p_id p = pid \<and> owns_supplier d c (p_supplier_id p))
      in if list_ex (\<lambda>p. hit p \<and> list_ex (\<lambda>ord. o_product_id ord = p_id p) (orders d)) (products d)
         then Inl (ConstraintError ForeignKeyViolation)
         else Inr (d\<lparr>products := filter (\<lambda>p. \<not> hit p) (products d)\<rparr>))"

text \<open>
  orders: "Users can view their own orders" and "Suppliers can view orders for their
  products" for select; "Users can update their own orders" and "Suppliers can update orders
  for their products" for update. The two pairs have the same predicates, and several
  policies of one command are joined by \<^verbatim>\<open>or\<close>.
\<close>

definition orders_policy :: "db \<Rightarrow> caller \<Rightarrow> order \<Rightarrow> bool" where
  "orders_policy d c ord = (c = Some (o_user_id ord) \<or> owns_supplier d c (o_supplier_id ord))"

definition select_orders :: "db \<Rightarrow> caller \<Rightarrow> (order \<Rightarrow> bool) \<Rightarrow> error + order list" where
  "select_orders d c flt = Inr (filter (\<lambda>ord. orders_policy d c ord \<and> flt ord) (orders d))"

text \<open>
  "Users can insert their own orders" (\<^verbatim>\<open>with check (auth.uid() = user_id)\<close>), the
  \<^verbatim>\<open>not null\<close> columns \<^verbatim>\<open>user_id\<close>, \<^verbatim>\<open>unit_price\<close> and \<^verbatim>\<open>total_amount\<close>, the primary key,
  the foreign keys to products and suppliers.
\<close>

definition insert_order ::
  "db \<Rightarrow> caller \<Rightarrow> uuid \<Rightarrow> uuid option \<Rightarrow> uuid \<Rightarrow> uuid \<Rightarrow> int \<Rightarrow> int option \<Rightarrow> int option
     \<Rightarrow> order_status \<Rightarrow> error + db" where
  "insert_order d c new_id uid pid sid qty unit_price total_amount status =
     (case uid of
        None \<Rightarrow> Inl PolicyError
      | Some u \<Rightarrow>
          if c \<noteq> Some u then Inl PolicyError
          else (case (unit_price, total_amount) of
            (Some up, Some ta) \<Rightarrow>
              if list_ex (\<lambda>ord. o_id ord = new_id) (orders d)
              then Inl (ConstraintError UniqueViolation)
              else if \<not> list_ex (\<lambda>p. p_id p = pid) (products d)
                      \<or> \<not> list_ex (\<lambda>s. s_id s = sid) (suppliers d)
              then Inl (ConstraintError ForeignKeyViolation)
              else Inr (d\<lparr>orders := orders d @
                     [\<lparr>o_id = new_id, o_user_id = u, o_product_id = pid, o_supplier_id = sid,
                       o_quantity = qty, o_unit_price = up, o_total_amount = ta,
                       o_status = status\<rparr>]\<rparr>)
          | _ \<Rightarrow> Inl (ConstraintError NotNullViolation)))"

text \<open>
  \<^verbatim>\<open>update({ status: newStatus }).eq('id', orderId)\<close>: the filter names the row by its id
  alone. A row that the caller's update policies do not admit is skipped without an error.
\<close>

definition update_order_status ::
  "db \<Rightarrow> caller \<Rightarrow> uuid \<Rightarrow> order_status \<Rightarrow> error + (order list \<times> db)" where
  "update_order_status d c orderId newStatus =
     (let hit = (\<lambda>ord. o_id ord = orderId \<and> orders_policy d c ord);
          rows = map (\<lambda>ord. if hit ord then ord\<lparr>o_status := newStatus\<rparr> else ord) (orders d)
      in Inr (filter hit rows, d\<lparr>orders := rows\<rparr>))"

section \<open>Orders page\<close>

text \<open>
  \<^verbatim>\<open>handleUpdateOrderStatus(orderId, newStatus)\<close> and \<^verbatim>\<open>handleCancelOrder(orderId)\<close>.
  The second asks \<^verbatim>\<open>confirm(...)\<close> first; its answer is the argument \<open>confirmed\<close>,
  and a declined dialog ends the handler with nothing shown.
\<close>

definition handleUpdateOrderStatus :: "db \<Rightarrow> caller \<Rightarrow> uuid \<Rightarrow> order_status \<Rightarrow> db \<times> toast" where
  "handleUpdateOrderStatus d c orderId newStatus =
     (case update_order_status d c orderId newStatus of
        Inl e \<Rightarrow> (d, ErrorToastOf e)
      | Inr (rows, d') \<Rightarrow> (d', Toast ''Order Updated''))"

definition handleCancelOrder :: "db \<Rightarrow> caller \<Rightarrow> bool \<Rightarrow> uuid \<Rightarrow> db \<times> toast option" where
  "handleCancelOrder d c confirmed orderId =
     (if \<not> confirmed then (d, None)
      else case update_order_status d c orderId Cancelled of
        Inl e \<Rightarrow> (d, Some (ErrorToastOf e))
      | Inr (rows, d') \<Rightarrow> (d', Some (Toast ''Order Cancelled'')))"

text \<open>\<^verbatim>\<open>userRole?.role\<close> is \<open>None\<close> while no role row has been fetched.\<close>

definition canUpdateStatus :: "role option \<Rightarrow> order \<Rightarrow> bool" where
  "canUpdateStatus userRole ord =
     (if userRole = Some Supplier
      then o_status ord = Pending \<or> o_status ord = Confirmed
      else False)"

fun getNextStatus :: "order_status \<Rightarrow> order_status" where
  "getNextStatus Pending = Confirmed"
| "getNextStatus Confirmed = Shipped"
| "getNextStatus Shipped = Delivered"
| "getNextStatus currentStatus = currentStatus"

text \<open>
  The two buttons of an order card and of the detail dialog. \<open>shown\<close> is the order as the
  page last fetched it. The advance button is rendered under
  \<^verbatim>\<open>userRole?.role === 'supplier' && canUpdateStatus(order)\<close> and calls
  \<^verbatim>\<open>handleUpdateOrderStatus(order.id, getNextStatus(order.status))\<close>; the cancel button is
  rendered under \<^verbatim>\<open>userRole?.role === 'vendor' && order.status === 'pending'\<close> and calls
  \<^verbatim>\<open>handleCancelOrder(order.id)\<close>. A button that is not rendered cannot be clicked:
  \<open>None\<close>.
\<close>

definition advance_click :: "db \<Rightarrow> caller \<Rightarrow> role option \<Rightarrow> order \<Rightarrow> (db \<times> toast) option" where
  "advance_click d c userRole shown =
     (if userRole = Some Supplier \<and> canUpdateStatus userRole shown
      then Some (handleUpdateOrderStatus d c (o_id shown) (getNextStatus (o_status shown)))
      else None)"

definition cancel_click ::
  "db \<Rightarrow> caller \<Rightarrow> role option \<Rightarrow> bool \<Rightarrow> order \<Rightarrow> (db \<times> toast option) option" where
  "cancel_click d c userRole confirmed shown =
     (if userRole = Some Vendor \<and> o_status shown = Pending
      then Some (handleCancelOrder d c confirmed (o_id shown))
      else None)"

text \<open>The status of the order with a given id, as the table holds it.\<close>

definition status_of :: "db \<Rightarrow> uuid \<Rightarrow> order_status option" where
  "status_of d orderId = map_option o_status (find (\<lambda>ord. o_id ord = orderId) (orders d))"

section \<open>Products page: handlePlaceOrder, ensureSupplierRecord\<close>


text \<open>
  \<^verbatim>\<open>ensureSupplierRecord\<close> returns the \<^verbatim>\<open>id\<close> of the caller's suppliers row, or null:
  for no session, for a missing profile (the \<^verbatim>\<open>throw\<close> is caught in the function), and
  for a failed insert.
\<close>

definition ensureSupplierRecord :: "db \<Rightarrow> caller \<Rightarrow> uuid \<Rightarrow> db \<times> uuid option" where
  "ensureSupplierRecord d c new_id =
     (case c of
        None \<Rightarrow> (d, None)
      | Some uid \<Rightarrow>
          (case single (select_suppliers d (\<lambda>s. s_user_id s = uid)) of
             Some supplierData \<Rightarrow> (d, Some (s_id supplierData))
           | None \<Rightarrow>
               (case single (select_supplier_profiles d c (\<lambda>p. sp_user_id p = uid)) of
                  None \<Rightarrow> (d, None)
                | Some profileData \<Rightarrow>
                    (case insert_supplier d c new_id uid (sp_business_name profileData)
                            (sp_contact_number profileData) (sp_business_address profileData)
                            (Some ''active'') of
                       Inl e \<Rightarrow> (d, None)
                     | Inr (newSupplier, d') \<Rightarrow> (d', Some (s_id newSupplier))))))"

section \<open>useAuth: signUp\<close>

text \<open>
  \<^verbatim>\<open>email.toLowerCase()\<close> on the letters A to Z; no character outside them has a
  lower-case form among the characters of the address compared with.
\<close>

definition lower_char :: "char \<Rightarrow> char" where
  "lower_char ch =
     (let n = (of_char ch :: nat) in if 65 \<le> n \<and> n \<le> 90 then char_of (n + 32) else ch)"

definition toLowerCase :: "string \<Rightarrow> string" where
  "toLowerCase s = map lower_char s"

definition isHardcodedSuperadmin :: "string \<Rightarrow> bool" where
  "isHardcodedSuperadmin email = (toLowerCase email = ''fieronrhys@gmail.com'')"

text \<open>The fields of \<^verbatim>\<open>userData\<close> that \<^verbatim>\<open>signUp\<close> reads; an absent field is \<open>None\<close>.\<close>

record user_data =
  ud_id :: "uuid option"
  ud_role :: "role option"
  ud_full_name :: "string option"
  ud_company_name :: "string option"
  ud_business_name :: "string option"
  ud_business_type :: "string option"
  ud_business_address :: "string option"
  ud_contact_number :: "string option"
  ud_fssai_license :: "string option"
  ud_other_certifications :: "string list option"
  ud_avatar_url :: "string option"

text \<open>
  The authentication service is outside the repository. What \<^verbatim>\<open>signUp\<close> sees of it is
  the error of \<^verbatim>\<open>supabase.auth.signUp\<close>, or else the user that \<^verbatim>\<open>supabase.auth.getUser()\<close>
  returns (none when the new account has no session yet).
\<close>

datatype auth_result = AuthError string | AuthOk "uuid option"

text \<open>The identifiers the database generates for the rows of one sign-up.\<close>

record new_ids =
  role_row_id :: uuid
  profile_row_id :: uuid
  trigger_supplier_id :: uuid
  supplier_row_id :: uuid

definition finalRole :: "string \<Rightarrow> user_data \<Rightarrow> role option" where
  "finalRole email userData =
     (if isHardcodedSuperadmin email then Some Superadmin else ud_role userData)"

definition signUp_approval_status :: "string \<Rightarrow> user_data \<Rightarrow> approval_status" where
  "signUp_approval_status email userData =
     (if finalRole email userData = Some Supplier \<and> \<not> isHardcodedSuperadmin email
      then ApprovalPending else Approved)"

text \<open>A statement whose result \<^verbatim>\<open>signUp\<close> does not look at: on an error the table is as before.\<close>

definition ignore_error :: "db \<Rightarrow> error + db \<Rightarrow> db" where
  "ignore_error d r = (case r of Inl e \<Rightarrow> d | Inr d' \<Rightarrow> d')"

text \<open>
  \<open>session\<close> is the session the page has before the sign-up; the existing-role lookup
  runs under it, and only its \<^verbatim>\<open>data\<close> is looked at. The result is the new database
  and the \<^verbatim>\<open>error\<close> of the returned object.
\<close>

definition signUp ::
  "db \<Rightarrow> caller \<Rightarrow> string \<Rightarrow> user_data \<Rightarrow> auth_result \<Rightarrow> new_ids \<Rightarrow> db \<times> string option" where
  "signUp d session email userData auth ids =
     (case single_data (select_user_roles d session (\<lambda>ur. Some (ur_user_id ur) = ud_id userData)) of
        Some existingRole \<Rightarrow> (d, Some ''User role already exists.'')
      | None \<Rightarrow>
          (case auth of
             AuthError msg \<Rightarrow> (d, Some msg)
           | AuthOk None \<Rightarrow> (d, None)
           | AuthOk (Some uid) \<Rightarrow>
               (let c = Some uid;
                    d1 = ignore_error d
                           (insert_user_role d c (role_row_id ids) uid (finalRole email userData)
                              (signUp_approval_status email userData))
                in if finalRole email userData = Some Supplier then
                     (let d2 = ignore_error d1
                            (insert_supplier_profile d1 c
                               \<lparr>sp_id = profile_row_id ids, sp_user_id = uid,
                                sp_full_name = ud_full_name userData,
                                sp_business_name = ud_business_name userData,
                                sp_business_type = ud_business_type userData,
                                sp_business_address = ud_business_address userData,
                                sp_contact_number = ud_contact_number userData,
                                sp_fssai_license = ud_fssai_license userData,
                                sp_other_certifications = ud_other_certifications userData,
                                sp_avatar_url = ud_avatar_url userData\<rparr>
                               (trigger_supplier_id ids));
                          d3 = ignore_error d2
                            (map_sum id snd
                               (insert_supplier d2 c (supplier_row_id ids) uid
                                  (ud_business_name userData) (ud_contact_number userData)
                                  (ud_business_address userData) (Some ''active'')))
                      in (d3, None))
                   else if finalRole email userData = Some Vendor then
                     (ignore_error d1
                        (insert_vendor_profile d1 c
                           \<lparr>vp_id = profile_row_id ids, vp_user_id = uid,
                            vp_full_name = ud_full_name userData,
                            vp_company_name = ud_company_name userData,
                            vp_contact_number = ud_contact_number userData,
                            vp_avatar_url = ud_avatar_url userData\<rparr>), None)
                   else (d1, None))))"

section \<open>Statements and their interleavings\<close>

text \<open>
  Every statement that the client code of the repository sends and that writes a table. The
  database runs each statement atomically; two handlers that run at the same time are an
  interleaving of their statements, that is, some list of statements run in order. A
  statement that fails leaves the database as it was.
\<close>

datatype statement =
    InsertUserRole caller uuid uuid "role option" approval_status
  | UpdateApprovalStatus caller uuid approval_status
  | InsertSupplierProfile caller supplier_profile uuid
  | InsertVendorProfile caller vendor_profile
  | InsertSupplier caller uuid uuid "string option" "string option" "string option" "string option"
  | InsertProduct caller product
  | UpdateProduct caller uuid "product \<Rightarrow> product"
  | DeleteProduct caller uuid
  | InsertOrder caller uuid "uuid option" uuid uuid int "int option" "int option" order_status
  | UpdateOrderStatus caller uuid order_status

fun exec :: "statement \<Rightarrow> db \<Rightarrow> db" where
  "exec (InsertUserRole c i u r st) d = ignore_error d (insert_user_role d c i u r st)"
| "exec (UpdateApprovalStatus c u st) d = ignore_error d (map_sum id snd (update_approval_status d c u st))"
| "exec (InsertSupplierProfile c row t) d = ignore_error d (insert_supplier_profile d c row t)"
| "exec (InsertVendorProfile c row) d = ignore_error d (insert_vendor_profile d c row)"
| "exec (InsertSupplier c i u n e a st) d = ignore_error d (map_sum id snd (insert_supplier d c i u n e a st))"
| "exec (InsertProduct c row) d = ignore_error d (insert_product d c row)"
| "exec (UpdateProduct c i patch) d = ignore_error d (map_sum id snd (update_product d c i patch))"
| "exec (DeleteProduct c i) d = ignore_error d (delete_product d c i)"
| "exec (InsertOrder c i u p s q up ta st) d = ignore_error d (insert_order d c i u p s q up ta st)"
| "exec (UpdateOrderStatus c i st) d = ignore_error d (map_sum id snd (update_order_status d c i st))"

definition run :: "statement list \<Rightarrow> db \<Rightarrow> db" where
  "run stmts d = fold exec stmts d"

text \<open>The uniqueness invariant of \<^verbatim>\<open>user_roles.user_id\<close> and of \<^verbatim>\<open>suppliers.user_id\<close>.\<close>

definition one_role_per_account :: "db \<Rightarrow> bool" where
  "one_role_per_account d = distinct (map ur_user_id (user_roles d))"

definition one_supplier_per_account :: "db \<Rightarrow> bool" where
  "one_supplier_per_account d = distinct (map s_user_id (suppliers d))"

section \<open>A small marketplace\<close>

text \<open>
  Account 1 is a supplier awaiting approval, with its profile, its suppliers row and one
  product priced 100.00; account 2 is a vendor with one order of that product, in the given
  status; account 3 is a superadmin.
\<close>

definition acme_profile :: supplier_profile where
  "acme_profile = \<lparr>sp_id = 50, sp_user_id = 1, sp_full_name = Some ''Ann'',
     sp_business_name = Some ''Acme'', sp_business_type = None,
     sp_business_address = Some ''1 Main St'', sp_contact_number = Some ''555'',
     sp_fssai_license = None, sp_other_certifications = None, sp_avatar_url = None\<rparr>"

definition acme_supplier :: supplier where
  "acme_supplier = \<lparr>s_id = 20, s_user_id = 1, s_name = ''Acme'', s_contact_email = Some ''555'',
     s_contact_phone = None, s_address = None, s_logo_url = None, s_website = None,
     s_status = Some ''active''\<rparr>"

definition rice :: product where
  "rice = \<lparr>p_id = 30, p_name = ''Rice'', p_description = None, p_unit_price = Some 10000,
     p_stock_quantity = Some 5, p_min_stock_level = Some 10, p_sku = None, p_image_url = None,
     p_status = Some ''active'', p_supplier_id = 20\<rparr>"

definition rice_order :: "order_status \<Rightarrow> order" where
  "rice_order st = \<lparr>o_id = 40, o_user_id = 2, o_product_id = 30, o_supplier_id = 20,
     o_quantity = 1, o_unit_price = 10000, o_total_amount = 10000, o_status = st\<rparr>"

definition market :: "order_status \<Rightarrow> db" where
  "market st = \<lparr>user_roles =
       [\<lparr>ur_id = 10, ur_user_id = 1, ur_role = Supplier, ur_approval_status = ApprovalPending\<rparr>,
        \<lparr>ur_id = 11, ur_user_id = 2, ur_role = Vendor, ur_approval_status = Approved\<rparr>,
        \<lparr>ur_id = 12, ur_user_id = 3, ur_role = Superadmin, ur_approval_status = Approved\<rparr>],
     supplier_profiles = [acme_profile], vendor_profiles = [],
     suppliers = [acme_supplier], products = [rice], orders = [rice_order st]\<rparr>"

text \<open>
  The same marketplace with no suppliers row, and with the supplier's profile holding no
  business name.
\<close>

definition nameless_market :: db where
  "nameless_market = (market Pending)
     \<lparr>supplier_profiles := [acme_profile\<lparr>sp_business_name := None\<rparr>], suppliers := []\<rparr>"

text \<open>The database before anyone has signed up, and the fields of two sign-up forms.\<close>

definition empty_db :: db where
  "empty_db = \<lparr>user_roles = [], supplier_profiles = [], vendor_profiles = [],
     suppliers = [], products = [], orders = []\<rparr>"

definition form :: "role \<Rightarrow> user_data" where
  "form r = \<lparr>ud_id = None, ud_role = Some r, ud_full_name = Some ''Ann'',
     ud_company_name = None, ud_business_name = Some ''Acme'', ud_business_type = None,
     ud_business_address = Some ''1 Main St'', ud_contact_number = Some ''555'',
     ud_fssai_license = None, ud_other_certifications = None, ud_avatar_url = None\<rparr>"

definition ids0 :: new_ids where
  "ids0 = \<lparr>role_row_id = 10, profile_row_id = 50, trigger_supplier_id = 20, supplier_row_id = 21\<rparr>"

section \<open>Helper lemmas\<close>

lemmas example_defs = market_def rice_order_def rice_def acme_supplier_def acme_profile_def
  empty_db_def form_def ids0_def nameless_market_def


lemma user_roles_update_recursion: "policy_recursion [UpdateCmd, SelectCmd] UserRoles"
  by (simp add: policy_recursion_def all_tables_def policy_loops.simps)

lemma user_roles_insert_no_recursion: "\<not> policy_recursion [InsertCmd] UserRoles"
  by (simp add: policy_recursion_def)

lemma suppliers_subselect_no_loop: "t \<noteq> Suppliers \<Longrightarrow> \<not> policy_loops (removeAll t all_tables) Suppliers"
  by (cases t) (simp_all add: all_tables_def policy_loops.simps)

lemma other_tables_no_recursion: "t \<noteq> UserRoles \<Longrightarrow> \<not> policy_recursion cmds t"
proof (induction cmds)
  case Nil
  then show ?case by (simp add: policy_recursion_def)
next
  case (Cons cmd cmds)
  from Cons.prems have "\<not> list_ex (policy_loops (removeAll t all_tables)) (policy_subselects cmd t)"
    by (cases cmd; cases t) (simp_all add: suppliers_subselect_no_loop)
  with Cons show ?case by (simp add: policy_recursion_def)
qed

lemma update_approval_status_fails:
  "update_approval_status d c uid st = Inl PolicyRecursion"
  by (simp add: update_approval_status_def user_roles_update_recursion)


lemma user_ids_after_status_update:
  "map (ur_user_id \<circ> (\<lambda>ur. if P ur then ur\<lparr>ur_approval_status := st\<rparr> else ur)) rows
     = map ur_user_id rows"
  by (induction rows) auto

lemma insert_user_role_appends:
  assumes "insert_user_role d c i u r st = Inr d'"
  shows "\<exists>r'. r = Some r' \<and> c = Some u
           \<and> \<not> list_ex (\<lambda>ur. ur_id ur = i \<or> ur_user_id ur = u) (user_roles d)
           \<and> d' = d\<lparr>user_roles := user_roles d @
                  [\<lparr>ur_id = i, ur_user_id = u, ur_role = r', ur_approval_status = st\<rparr>]\<rparr>"
  using assms by (auto simp: insert_user_role_def split: if_splits option.splits)

lemma insert_supplier_appends:
  assumes "insert_supplier d c i u name e a st = Inr (row, d')"
  shows "\<exists>n. name = Some n \<and> c = Some u
           \<and> \<not> list_ex (\<lambda>s. s_id s = i \<or> s_user_id s = u) (suppliers d)
           \<and> row = \<lparr>s_id = i, s_user_id = u, s_name = n, s_contact_email = e,
                     s_contact_phone = None, s_address = a, s_logo_url = None, s_website = None,
                     s_status = (case st of None \<Rightarrow> Some ''active'' | Some x \<Rightarrow> Some x)\<rparr>
           \<and> d' = d\<lparr>suppliers := suppliers d @ [row]\<rparr>"
  using assms by (auto simp: insert_supplier_def Let_def split: if_splits option.splits)

lemma insert_supplier_keeps_roles:
  "user_roles (ignore_error d (map_sum id snd (insert_supplier d c i u name e a st))) = user_roles d"
  by (auto simp: ignore_error_def insert_supplier_def Let_def split: option.splits)

lemma create_supplier_keeps_roles:
  "create_supplier_for_user d c new t = Inr d' \<Longrightarrow> user_roles d' = user_roles d"
  by (auto simp: create_supplier_for_user_def Let_def split: sum.splits dest!: insert_supplier_appends)

lemma insert_supplier_profile_keeps_roles:
  "user_roles (ignore_error d (insert_supplier_profile d c row t)) = user_roles d"
  by (auto simp: ignore_error_def insert_supplier_profile_def split: sum.splits
      dest!: create_supplier_keeps_roles)

lemma insert_vendor_profile_keeps_roles:
  "user_roles (ignore_error d (insert_vendor_profile d c row)) = user_roles d"
  by (auto simp: ignore_error_def insert_vendor_profile_def)

lemma insert_product_keeps_roles:
  "user_roles (ignore_error d (insert_product d c row)) = user_roles d"
  by (auto simp: ignore_error_def insert_product_def)

lemma update_product_keeps_roles:
  "user_roles (ignore_error d (map_sum id snd (update_product d c i patch))) = user_roles d"
  by (auto simp: ignore_error_def update_product_def Let_def)

lemma delete_product_keeps_roles:
  "user_roles (ignore_error d (delete_product d c i)) = user_roles d"
  by (auto simp: ignore_error_def delete_product_def Let_def)

lemma insert_order_keeps_roles:
  "user_roles (ignore_error d (insert_order d c i u p s q up ta st)) = user_roles d"
  by (auto simp: ignore_error_def insert_order_def split: option.splits)

lemma update_order_status_keeps_roles:
  "user_roles (ignore_error d (map_sum id snd (update_order_status d c i st))) = user_roles d"
  by (auto simp: ignore_error_def update_order_status_def Let_def)

lemmas keeps_roles = insert_supplier_keeps_roles insert_supplier_profile_keeps_roles
  insert_vendor_profile_keeps_roles insert_product_keeps_roles update_product_keeps_roles
  delete_product_keeps_roles insert_order_keeps_roles update_order_status_keeps_roles

lemma insert_user_role_one_role:
  assumes "one_role_per_account d"
  shows "one_role_per_account (ignore_error d (insert_user_role d c i u r st))"
proof (cases "insert_user_role d c i u r st")
  case (Inl e)
  with assms show ?thesis by (simp add: ignore_error_def)
next
  case (Inr d')
  from insert_user_role_appends [OF Inr] obtain r' where
    fresh: "\<not> list_ex (\<lambda>ur. ur_id ur = i \<or> ur_user_id ur = u) (user_roles d)" and
    d': "d' = d\<lparr>user_roles := user_roles d @
           [\<lparr>ur_id = i, ur_user_id = u, ur_role = r', ur_approval_status = st\<rparr>]\<rparr>"
    by blast
  from fresh have "u \<notin> set (map ur_user_id (user_roles d))"
    by (auto simp: list_ex_iff)
  with assms d' Inr show ?thesis
    by (simp add: ignore_error_def one_role_per_account_def)
qed

lemma update_approval_one_role:
  assumes "one_role_per_account d"
  shows "one_role_per_account (ignore_error d (map_sum id snd (update_approval_status d c u st)))"
  using assms
  by (simp add: ignore_error_def update_approval_status_fails)

lemma exec_one_role:
  assumes "one_role_per_account d"
  shows "one_role_per_account (exec stmt d)"
proof (cases stmt)
  case InsertUserRole
  with assms show ?thesis by (simp add: insert_user_role_one_role)
next
  case UpdateApprovalStatus
  with assms show ?thesis by (simp add: update_approval_one_role)
qed (use assms in \<open>simp_all add: one_role_per_account_def keeps_roles\<close>)

lemma run_one_role:
  "one_role_per_account d \<Longrightarrow> one_role_per_account (run stmts d)"
  unfolding run_def by (induction stmts arbitrary: d) (simp_all add: exec_one_role)

lemma distinct_map_filter_le_1:
  "distinct (map f xs) \<Longrightarrow> length (filter (\<lambda>x. f x = k) xs) \<le> 1"
proof (induction xs)
  case Nil
  then show ?case by simp
next
  case (Cons a xs)
  then have notin: "\<forall>x \<in> set xs. f x \<noteq> f a" and rest: "distinct (map f xs)"
    by (force simp: image_iff)+
  show ?case
  proof (cases "f a = k")
    case True
    with notin have "filter (\<lambda>x. f x = k) xs = []"
      by (auto simp: filter_empty_conv)
    with True show ?thesis by simp
  next
    case False
    with Cons.IH [OF rest] show ?thesis by simp
  qed
qed

section \<open>Approval of a role assignment\<close>

text \<open>
  Claim C1, which the code does not meet. The claim has a superadmin change the approval
  status and every other caller refused with a PolicyError. In the code every update of
  user\_roles fails with error 42P17, for a superadmin as for anyone else, because the
  update policy reads the table it guards: the status stays as it was,
  \<^verbatim>\<open>handleApproveSupplier\<close> and \<^verbatim>\<open>handleRejectSupplier\<close> show their error toasts,
  and in the small marketplace the superadmin, account 3, cannot approve the pending
  supplier, account 1.
\<close>

theorem approval_update_fails_for_every_caller:
  "update_approval_status d c uid st = Inl PolicyRecursion
   \<and> handleApproveSupplier d c uid
       = (d, ErrorToast ''Failed to approve supplier. Please try again.'')
   \<and> handleRejectSupplier d c uid
       = (d, ErrorToast ''Failed to reject supplier. Please try again.'')
   \<and> is_superadmin (market Pending) (Some 3)
   \<and> map ur_approval_status
        (user_roles (fst (handleApproveSupplier (market Pending) (Some 3) 1)))
      = [ApprovalPending, Approved, Approved]"
  by (simp add: handleApproveSupplier_def handleRejectSupplier_def update_approval_status_fails
      is_superadmin_def example_defs)

section \<open>One role assignment per account\<close>

text \<open>
  Claim C3. Whatever statements the clients send, in whatever order they reach the
  database, a database with at most one user\_roles row per account still has at most one
  row per account afterwards: an insert for an account that has a row fails on
  \<^verbatim>\<open>user_id ... unique\<close>, and no other statement adds a row. Two sign-ups that run at
  the same time are one such order of their statements.
\<close>

theorem one_role_assignment_per_account:
  assumes "one_role_per_account d"
  shows "one_role_per_account (run stmts d)
         \<and> length (filter (\<lambda>ur. ur_user_id ur = u) (user_roles (run stmts d))) \<le> 1"
proof -
  have inv: "one_role_per_account (run stmts d)"
    using assms by (rule run_one_role)
  then have "distinct (map ur_user_id (user_roles (run stmts d)))"
    by (simp add: one_role_per_account_def)
  then have "length (filter (\<lambda>ur. ur_user_id ur = u) (user_roles (run stmts d))) \<le> 1"
    by (rule distinct_map_filter_le_1)
  with inv show ?thesis by blast
qed

text \<open>
  Two sign-ups for account 7 whose existing-role lookups both found nothing: the second
  insert fails, and the first row stays the only one.
\<close>

theorem one_role_assignment_per_account_witness:
  "one_role_per_account empty_db
   \<and> user_roles (run [InsertUserRole (Some 7) 100 7 (Some Supplier) ApprovalPending,
                      InsertUserRole (Some 7) 101 7 (Some Vendor) Approved] empty_db)
     = [\<lparr>ur_id = 100, ur_user_id = 7, ur_role = Supplier, ur_approval_status = ApprovalPending\<rparr>]
   \<and> one_role_per_account
        (run [InsertUserRole (Some 7) 100 7 (Some Supplier) ApprovalPending,
              InsertUserRole (Some 7) 101 7 (Some Vendor) Approved] empty_db)"
proof -
  have h: "one_role_per_account empty_db"
    by (simp add: one_role_per_account_def empty_db_def)
  have r: "user_roles (run [InsertUserRole (Some 7) 100 7 (Some Supplier) ApprovalPending,
                      InsertUserRole (Some 7) 101 7 (Some Vendor) Approved] empty_db)
     = [\<lparr>ur_id = 100, ur_user_id = 7, ur_role = Supplier, ur_approval_status = ApprovalPending\<rparr>]"
    by (simp add: run_def empty_db_def insert_user_role_def ignore_error_def)
  from h r one_role_assignment_per_account [OF h, of _ 7] show ?thesis by blast
qed


section \<open>The role assignment a sign-up creates\<close>





section \<open>Order status\<close>

lemma status_after_update:
  "map_option o_status
     (find (\<lambda>x. o_id x = j) (map (\<lambda>x. if hit x then x\<lparr>o_status := st\<rparr> else x) rows))
   = (case find (\<lambda>x. o_id x = j) rows of
        None \<Rightarrow> None
      | Some x \<Rightarrow> Some (if hit x then st else o_status x))"
  by (induction rows) auto

lemma status_of_update_order_status:
  assumes "update_order_status d c i st = Inr (rows, d')"
    and "find (\<lambda>x. o_id x = i) (orders d) = Some ord"
  shows "status_of d' i = Some (if orders_policy d c ord then st else o_status ord)"
proof -
  let ?hit = "\<lambda>x. o_id x = i \<and> orders_policy d c x"
  from assms(2) have oid: "o_id ord = i"
    by (auto simp: find_Some_iff)
  from assms(1) have "orders d' = map (\<lambda>x. if ?hit x then x\<lparr>o_status := st\<rparr> else x) (orders d)"
    by (auto simp: update_order_status_def Let_def)
  then have "status_of d' i = map_option o_status
      (find (\<lambda>x. o_id x = i) (map (\<lambda>x. if ?hit x then x\<lparr>o_status := st\<rparr> else x) (orders d)))"
    by (simp add: status_of_def)
  also have "\<dots> = (case find (\<lambda>x. o_id x = i) (orders d) of
        None \<Rightarrow> None
      | Some x \<Rightarrow> Some (if ?hit x then st else o_status x))"
    by (rule status_after_update)
  also from assms(2) have "\<dots> = Some (if ?hit ord then st else o_status ord)"
    by simp
  finally show ?thesis using oid by simp
qed

lemma nothing_admitted:
  assumes "list_all (\<lambda>x. \<not> hit x) rows"
  shows "map (\<lambda>x. if hit x then f x else x) rows = rows"
    and "filter hit (map (\<lambda>x. if hit x then f x else x) rows) = []"
  using assms by (induction rows) auto

lemma update_order_status_total:
  "\<exists>rows d'. update_order_status d c i st = Inr (rows, d')"
  by (simp add: update_order_status_def Let_def)

text \<open>
  Claim C4, as amended. On a page that shows the order with the status the table holds,
  the advance button exists only for the supplier role and only on a pending or confirmed
  order, and a click moves a pending order to confirmed and a confirmed order to shipped;
  the cancel button exists only for the vendor role and only on a pending order, and a
  click, once confirmed in the dialog, moves it to cancelled. In both cases the row changes
  only if the caller is the purchaser or owns the order's suppliers row. For a caller who is
  neither, a status update changes no row and leaves the database as it was, without an
  error.
\<close>

theorem order_buttons_follow_sequence:
  assumes "find (\<lambda>x. o_id x = o_id shown) (orders d) = Some ord"
    and "o_status ord = o_status shown"
  shows "(advance_click d c r shown = Some (d', t) \<longrightarrow>
            r = Some Supplier \<and> (o_status shown = Pending \<or> o_status shown = Confirmed)
            \<and> status_of d' (o_id shown)
                = Some (if \<not> orders_policy d c ord then o_status shown
                        else if o_status shown = Pending then Confirmed else Shipped))
       \<and> (cancel_click d c r confirmed shown = Some (d'', t') \<longrightarrow>
            r = Some Vendor \<and> o_status shown = Pending
            \<and> status_of d'' (o_id shown)
                = Some (if confirmed \<and> orders_policy d c ord then Cancelled else Pending))
       \<and> (list_all (\<lambda>x. \<not> (o_id x = i \<and> orders_policy d c x)) (orders d) \<longrightarrow>
            update_order_status d c i st = Inr ([], d))"
proof (intro conjI impI)
  assume a: "advance_click d c r shown = Some (d', t)"
  then show "r = Some Supplier"
    by (simp add: advance_click_def split: if_splits)
  from a show can: "o_status shown = Pending \<or> o_status shown = Confirmed"
    by (simp add: advance_click_def canUpdateStatus_def split: if_splits)
  from a have "fst (handleUpdateOrderStatus d c (o_id shown) (getNextStatus (o_status shown))) = d'"
    by (auto simp: advance_click_def split: if_splits)
  then obtain rows where
    "update_order_status d c (o_id shown) (getNextStatus (o_status shown)) = Inr (rows, d')"
    using update_order_status_total [of d c "o_id shown" "getNextStatus (o_status shown)"]
    by (auto simp: handleUpdateOrderStatus_def)
  from status_of_update_order_status [OF this assms(1)] can assms(2)
  show "status_of d' (o_id shown)
          = Some (if \<not> orders_policy d c ord then o_status shown
                  else if o_status shown = Pending then Confirmed else Shipped)"
    by auto
next
  assume a: "cancel_click d c r confirmed shown = Some (d'', t')"
  then show "r = Some Vendor" and p: "o_status shown = Pending"
    by (simp_all add: cancel_click_def split: if_splits)
  from a have h: "fst (handleCancelOrder d c confirmed (o_id shown)) = d''"
    by (auto simp: cancel_click_def split: if_splits)
  show "status_of d'' (o_id shown)
          = Some (if confirmed \<and> orders_policy d c ord then Cancelled else Pending)"
  proof (cases confirmed)
    case False
    with h have "d'' = d" by (simp add: handleCancelOrder_def)
    with False assms p show ?thesis by (simp add: status_of_def)
  next
    case True
    with h obtain rows where
      "update_order_status d c (o_id shown) Cancelled = Inr (rows, d'')"
      using update_order_status_total [of d c "o_id shown" Cancelled]
      by (auto simp: handleCancelOrder_def)
    from status_of_update_order_status [OF this assms(1)] True p assms(2)
    show ?thesis by auto
  qed
next
  assume "list_all (\<lambda>x. \<not> (o_id x = i \<and> orders_policy d c x)) (orders d)"
  from nothing_admitted [OF this]
  show "update_order_status d c i st = Inr ([], d)"
    by (simp add: update_order_status_def Let_def)
qed


text \<open>
  In the small marketplace: the supplier's Confirm click on the pending order, the
  vendor's Cancel click on it, and a status update by account 9, who has no part in the order.
\<close>

theorem order_buttons_follow_sequence_witness:
  "find (\<lambda>x. o_id x = o_id (rice_order Pending)) (orders (market Pending)) = Some (rice_order Pending)
   \<and> advance_click (market Pending) (Some 1) (Some Supplier) (rice_order Pending)
       = Some (market Confirmed, Toast ''Order Updated'')
   \<and> status_of (market Confirmed) (o_id (rice_order Pending)) = Some Confirmed
   \<and> cancel_click (market Pending) (Some 2) (Some Vendor) True (rice_order Pending)
       = Some (market Cancelled, Some (Toast ''Order Cancelled''))
   \<and> status_of (market Cancelled) (o_id (rice_order Pending)) = Some Cancelled
   \<and> update_order_status (market Pending) (Some 9) 40 Delivered = Inr ([], market Pending)"
proof -
  have f: "find (\<lambda>x. o_id x = o_id (rice_order Pending)) (orders (market Pending))
             = Some (rice_order Pending)"
    by (simp add: example_defs)
  have pol: "orders_policy (market Pending) (Some 1) (rice_order Pending)"
            "orders_policy (market Pending) (Some 2) (rice_order Pending)"
    by (simp_all add: example_defs orders_policy_def owns_supplier_def)
  have a: "advance_click (market Pending) (Some 1) (Some Supplier) (rice_order Pending)
             = Some (market Confirmed, Toast ''Order Updated'')"
    by (simp add: example_defs advance_click_def canUpdateStatus_def handleUpdateOrderStatus_def
        update_order_status_def orders_policy_def owns_supplier_def)
  have b: "cancel_click (market Pending) (Some 2) (Some Vendor) True (rice_order Pending)
             = Some (market Cancelled, Some (Toast ''Order Cancelled''))"
    by (simp add: example_defs cancel_click_def handleCancelOrder_def
        update_order_status_def orders_policy_def owns_supplier_def)
  have n: "list_all (\<lambda>x. \<not> (o_id x = 40 \<and> orders_policy (market Pending) (Some 9) x))
             (orders (market Pending))"
    by (simp add: example_defs orders_policy_def owns_supplier_def)
  from order_buttons_follow_sequence [OF f refl,
      of "Some 1" "Some Supplier" "market Confirmed" "Toast ''Order Updated''"
         True "market Pending" None 40 Delivered]
       order_buttons_follow_sequence [OF f refl,
      of "Some 2" "Some Vendor" "market Pending" "Toast ''Order Updated''"
         True "market Cancelled" "Some (Toast ''Order Cancelled'')" 40 Delivered]
       order_buttons_follow_sequence [OF f refl,
      of "Some 9" None "market Pending" "Toast ''Order Updated''"
         True "market Pending" None 40 Delivered]
  show ?thesis using f pol a b n
    by (simp add: rice_order_def)
qed

text \<open>
  Claim C4 as stated fails. The vendor's page still shows the order as pending while the
  supplier has shipped it: the Cancel click is accepted and moves the order from shipped to
  cancelled. And \<^verbatim>\<open>handleUpdateOrderStatus\<close> called by the supplier with the status
  pending moves a delivered order back to pending.
\<close>

theorem order_transition_counterexample:
  "status_of (market Shipped) 40 = Some Shipped
   \<and> cancel_click (market Shipped) (Some 2) (Some Vendor) True (rice_order Pending)
       = Some (market Cancelled, Some (Toast ''Order Cancelled''))
   \<and> status_of (market Cancelled) 40 = Some Cancelled
   \<and> handleUpdateOrderStatus (market Delivered) (Some 1) 40 Pending
       = (market Pending, Toast ''Order Updated'')"
  by (simp add: example_defs status_of_def cancel_click_def handleCancelOrder_def
      handleUpdateOrderStatus_def update_order_status_def orders_policy_def owns_supplier_def)

lemma update_order_status_twice:
  assumes "update_order_status d c i st = Inr (rows, d')"
  shows "update_order_status d' c i st = Inr (rows, d')"
proof -
  let ?hit = "\<lambda>x. o_id x = i \<and> orders_policy d c x"
  let ?g = "\<lambda>x. if ?hit x then x\<lparr>o_status := st\<rparr> else x"
  from assms have d': "d' = d\<lparr>orders := map ?g (orders d)\<rparr>"
    and rows: "rows = filter ?hit (map ?g (orders d))"
    by (auto simp: update_order_status_def Let_def)
  have same_policy: "orders_policy d' c x = orders_policy d c x" for x
    by (simp add: d' orders_policy_def owns_supplier_def)
  have again: "map ?g (map ?g xs) = map ?g xs" for xs
    by (induction xs) (auto simp: orders_policy_def)
  have "update_order_status d' c i st
          = Inr (filter ?hit (map ?g (orders d')), d'\<lparr>orders := map ?g (orders d')\<rparr>)"
    by (simp add: update_order_status_def Let_def same_policy)
  also have "orders d' = map ?g (orders d)"
    by (simp add: d')
  also have "map ?g (map ?g (orders d)) = map ?g (orders d)"
    by (rule again)
  finally show ?thesis
    by (simp add: rows d')
qed

text \<open>
  Claim C5, as amended. A status update carries no expected predecessor state: when the
  caller is the purchaser or owns the order's suppliers row, the requested status is written
  whatever status the row has. The same request sent twice leaves the database as sending it
  once does.
\<close>

theorem order_update_ignores_current_status:
  assumes "find (\<lambda>x. o_id x = i) (orders d) = Some ord"
    and "orders_policy d c ord"
  shows "status_of (fst (handleUpdateOrderStatus d c i st)) i = Some st
       \<and> handleUpdateOrderStatus (fst (handleUpdateOrderStatus d c i st)) c i st
           = handleUpdateOrderStatus d c i st"
proof -
  obtain rows d' where u: "update_order_status d c i st = Inr (rows, d')"
    using update_order_status_total by blast
  from status_of_update_order_status [OF u assms(1)] assms(2)
  have "status_of d' i = Some st" by simp
  moreover from u have "handleUpdateOrderStatus d c i st = (d', Toast ''Order Updated'')"
    by (simp add: handleUpdateOrderStatus_def)
  moreover from update_order_status_twice [OF u]
  have "handleUpdateOrderStatus d' c i st = (d', Toast ''Order Updated'')"
    by (simp add: handleUpdateOrderStatus_def)
  ultimately show ?thesis by simp
qed

text \<open>The supplier sets the delivered order of the small marketplace to confirmed.\<close>

theorem order_update_ignores_current_status_witness:
  "find (\<lambda>x. o_id x = 40) (orders (market Delivered)) = Some (rice_order Delivered)
   \<and> orders_policy (market Delivered) (Some 1) (rice_order Delivered)
   \<and> status_of (fst (handleUpdateOrderStatus (market Delivered) (Some 1) 40 Confirmed)) 40
       = Some Confirmed"
proof -
  have f: "find (\<lambda>x. o_id x = 40) (orders (market Delivered)) = Some (rice_order Delivered)"
    by (simp add: example_defs)
  have p: "orders_policy (market Delivered) (Some 1) (rice_order Delivered)"
    by (simp add: example_defs orders_policy_def owns_supplier_def)
  from order_update_ignores_current_status [OF f p, of Confirmed] f p
  show ?thesis by simp
qed

text \<open>
  Claim C5 as stated fails. The supplier's page still shows the order as pending while the
  table holds it as shipped: the Confirm click, whose expected predecessor state is pending,
  is accepted and sets the shipped order to confirmed.
\<close>

theorem compare_and_swap_counterexample:
  "status_of (market Shipped) 40 = Some Shipped
   \<and> advance_click (market Shipped) (Some 1) (Some Supplier) (rice_order Pending)
       = Some (market Confirmed, Toast ''Order Updated'')
   \<and> status_of (market Confirmed) 40 = Some Confirmed"
  by (simp add: example_defs status_of_def advance_click_def canUpdateStatus_def
      handleUpdateOrderStatus_def update_order_status_def orders_policy_def owns_supplier_def)

text \<open>
  Claim C6, as amended. For an order that the table holds as the page shows it, and whose
  suppliers row the caller owns: the supplier's advance click moves a pending order to
  confirmed and a confirmed order to shipped, one step each. On a shipped, delivered or
  cancelled order there is no advance button (\<^verbatim>\<open>canUpdateStatus\<close> admits pending and
  confirmed only), although \<^verbatim>\<open>getNextStatus\<close> maps shipped to delivered.
\<close>

theorem supplier_advance_steps:
  assumes "find (\<lambda>x. o_id x = o_id ord) (orders d) = Some ord"
    and "owns_supplier d c (o_supplier_id ord)"
  shows "(o_status ord = Pending \<longrightarrow>
            (\<exists>d'. advance_click d c (Some Supplier) ord = Some (d', Toast ''Order Updated'')
                  \<and> status_of d' (o_id ord) = Some Confirmed))
       \<and> (o_status ord = Confirmed \<longrightarrow>
            (\<exists>d'. advance_click d c (Some Supplier) ord = Some (d', Toast ''Order Updated'')
                  \<and> status_of d' (o_id ord) = Some Shipped))
       \<and> (o_status ord = Shipped \<or> o_status ord = Delivered \<or> o_status ord = Cancelled \<longrightarrow>
            advance_click d c (Some Supplier) ord = None)
       \<and> getNextStatus Shipped = Delivered"
proof -
  have step: "\<exists>d'. handleUpdateOrderStatus d c (o_id ord) st = (d', Toast ''Order Updated'')
                 \<and> status_of d' (o_id ord) = Some st" for st
  proof -
    obtain rows d' where u: "update_order_status d c (o_id ord) st = Inr (rows, d')"
      using update_order_status_total by blast
    from assms(2) have "orders_policy d c ord"
      by (simp add: orders_policy_def)
    with status_of_update_order_status [OF u assms(1)] have "status_of d' (o_id ord) = Some st"
      by simp
    with u show ?thesis by (simp add: handleUpdateOrderStatus_def)
  qed
  from step [of Confirmed] step [of Shipped] show ?thesis
    by (auto simp: advance_click_def canUpdateStatus_def)
qed

text \<open>
  The supplier of the small marketplace confirms the pending order and ships the confirmed
  one; on the delivered order there is nothing to click.
\<close>

theorem supplier_advance_steps_witness:
  "find (\<lambda>x. o_id x = o_id (rice_order Pending)) (orders (market Pending)) = Some (rice_order Pending)
   \<and> owns_supplier (market Pending) (Some 1) (o_supplier_id (rice_order Pending))
   \<and> (\<exists>d'. advance_click (market Pending) (Some 1) (Some Supplier) (rice_order Pending)
              = Some (d', Toast ''Order Updated'')
           \<and> status_of d' 40 = Some Confirmed)
   \<and> (\<exists>d'. advance_click (market Confirmed) (Some 1) (Some Supplier) (rice_order Confirmed)
              = Some (d', Toast ''Order Updated'')
           \<and> status_of d' 40 = Some Shipped)
   \<and> advance_click (market Delivered) (Some 1) (Some Supplier) (rice_order Delivered) = None"
proof -
  have f: "find (\<lambda>x. o_id x = o_id (rice_order st)) (orders (market st)) = Some (rice_order st)" for st
    by (simp add: example_defs)
  have o: "owns_supplier (market st) (Some 1) (o_supplier_id (rice_order st))" for st
    by (simp add: example_defs owns_supplier_def)
  have i: "o_id (rice_order st) = 40" "o_status (rice_order st) = st" for st
    by (simp_all add: rice_order_def)
  from supplier_advance_steps [OF f o, of Pending] supplier_advance_steps [OF f o, of Confirmed]
       supplier_advance_steps [OF f o, of Delivered]
  show ?thesis using f [of Pending] o [of Pending] by (simp add: i)
qed

text \<open>
  Claim C6 as stated fails. For the shipped order of the small marketplace the supplier who
  owns its suppliers row has no advance operation: the order cannot be moved to delivered.
\<close>

theorem shipped_order_counterexample:
  "owns_supplier (market Shipped) (Some 1) (o_supplier_id (rice_order Shipped))
   \<and> status_of (market Shipped) 40 = Some Shipped
   \<and> canUpdateStatus (Some Supplier) (rice_order Shipped) = False
   \<and> advance_click (market Shipped) (Some 1) (Some Supplier) (rice_order Shipped) = None"
  by (simp add: example_defs status_of_def owns_supplier_def canUpdateStatus_def advance_click_def)

section \<open>What a denied operation returns\<close>

lemma nothing_selected:
  "list_all (\<lambda>x. \<not> P x) rows \<Longrightarrow> filter (\<lambda>x. P x \<and> Q x) rows = []"
  by (induction rows) auto

text \<open>
  Claim C7, as amended. On orders and products, whose policies read no table but suppliers:
  a read or an update of orders, and an update or a delete of products, that the policies
  deny for every row returns the empty set of rows and no error, which is what it returns
  when no row matches. An insert, into any of the six tables, whose row fails the
  \<^verbatim>\<open>with check\<close> of its policy returns a PolicyError.
\<close>

theorem denied_operation_outcomes:
  "(list_all (\<lambda>x. \<not> orders_policy d c x) (orders d) \<longrightarrow>
      select_orders d c flt = Inr [] \<and> update_order_status d c i st = Inr ([], d))
   \<and> (list_all (\<lambda>x. \<not> owns_supplier d c (p_supplier_id x)) (products d) \<longrightarrow>
      update_product d c pid patch = Inr ([], d) \<and> delete_product d c pid = Inr d)
   \<and> (c \<noteq> Some uid \<longrightarrow>
      insert_user_role d c new_id uid r ast = Inl PolicyError
      \<and> insert_supplier d c new_id uid name email address sst = Inl PolicyError
      \<and> insert_order d c new_id (Some uid) prod_id sid qty up ta st = Inl PolicyError)
   \<and> (c \<noteq> Some (sp_user_id prow) \<longrightarrow> insert_supplier_profile d c prow tid = Inl PolicyError)
   \<and> (c \<noteq> Some (vp_user_id vrow) \<longrightarrow> insert_vendor_profile d c vrow = Inl PolicyError)
   \<and> (\<not> owns_supplier d c (p_supplier_id row) \<longrightarrow> insert_product d c row = Inl PolicyError)"
proof (intro conjI impI)
  assume a: "list_all (\<lambda>x. \<not> orders_policy d c x) (orders d)"
  then show "select_orders d c flt = Inr []"
    by (simp add: select_orders_def nothing_selected)
  from a have "list_all (\<lambda>x. \<not> (o_id x = i \<and> orders_policy d c x)) (orders d)"
    by (simp add: list_all_iff)
  from nothing_admitted [OF this] show "update_order_status d c i st = Inr ([], d)"
    by (simp add: update_order_status_def Let_def)
next
  assume "list_all (\<lambda>x. \<not> owns_supplier d c (p_supplier_id x)) (products d)"
  then have none: "list_all (\<lambda>x. \<not> (p_id x = pid \<and> owns_supplier d c (p_supplier_id x))) (products d)"
    by (simp add: list_all_iff)
  from nothing_admitted [OF none] show "update_product d c pid patch = Inr ([], d)"
    by (simp add: update_product_def Let_def)
  from none have "\<not> list_ex (\<lambda>p. (p_id p = pid \<and> owns_supplier d c (p_supplier_id p))
                     \<and> list_ex (\<lambda>ord. o_product_id ord = p_id p) (orders d)) (products d)"
      and "filter (\<lambda>p. \<not> (p_id p = pid \<and> owns_supplier d c (p_supplier_id p))) (products d)
             = products d"
    by (auto simp: list_all_iff list_ex_iff filter_id_conv)
  then show "delete_product d c pid = Inr d"
    by (simp add: delete_product_def Let_def)
next
  assume "c \<noteq> Some uid"
  then show "insert_user_role d c new_id uid r ast = Inl PolicyError"
    and "insert_supplier d c new_id uid name email address sst = Inl PolicyError"
    and "insert_order d c new_id (Some uid) prod_id sid qty up ta st = Inl PolicyError"
    by (simp_all add: insert_user_role_def insert_supplier_def insert_order_def)
next
  assume "c \<noteq> Some (sp_user_id prow)"
  then show "insert_supplier_profile d c prow tid = Inl PolicyError"
    by (simp add: insert_supplier_profile_def)
next
  assume "c \<noteq> Some (vp_user_id vrow)"
  then show "insert_vendor_profile d c vrow = Inl PolicyError"
    by (simp add: insert_vendor_profile_def)
next
  assume "\<not> owns_supplier d c (p_supplier_id row)"
  then show "insert_product d c row = Inl PolicyError"
    by (simp add: insert_product_def)
qed

text \<open>
  Account 9 has no part in the order of the small marketplace and no suppliers row: its
  read and its update of orders return no rows, its update and its delete of the product
  change nothing, and its inserts of rows for other accounts are refused.
\<close>

theorem denied_operation_outcomes_witness:
  "list_all (\<lambda>x. \<not> orders_policy (market Pending) (Some 9) x) (orders (market Pending))
   \<and> select_orders (market Pending) (Some 9) (\<lambda>x. True) = Inr []
   \<and> update_order_status (market Pending) (Some 9) 40 Cancelled = Inr ([], market Pending)
   \<and> list_all (\<lambda>x. \<not> owns_supplier (market Pending) (Some 9) (p_supplier_id x))
        (products (market Pending))
   \<and> update_product (market Pending) (Some 9) 30 id = Inr ([], market Pending)
   \<and> delete_product (market Pending) (Some 9) 30 = Inr (market Pending)
   \<and> insert_user_role (market Pending) (Some 9) 41 2 (Some Superadmin) Approved = Inl PolicyError
   \<and> insert_order (market Pending) (Some 9) 41 (Some 2) 30 20 1 (Some 10000) (Some 10000) Cancelled
       = Inl PolicyError
   \<and> insert_supplier_profile (market Pending) (Some 9) acme_profile 41 = Inl PolicyError
   \<and> insert_vendor_profile (market Pending) (Some 9)
        \<lparr>vp_id = 60, vp_user_id = 2, vp_full_name = None, vp_company_name = None,
         vp_contact_number = None, vp_avatar_url = None\<rparr> = Inl PolicyError
   \<and> \<not> owns_supplier (market Pending) (Some 9) (p_supplier_id rice)
   \<and> insert_product (market Pending) (Some 9) rice = Inl PolicyError"
proof -
  let ?v = "\<lparr>vp_id = 60, vp_user_id = 2, vp_full_name = None, vp_company_name = None,
         vp_contact_number = None, vp_avatar_url = None\<rparr>"
  have a: "list_all (\<lambda>x. \<not> orders_policy (market Pending) (Some 9) x) (orders (market Pending))"
    by (simp add: example_defs orders_policy_def owns_supplier_def)
  have p: "list_all (\<lambda>x. \<not> owns_supplier (market Pending) (Some 9) (p_supplier_id x))
             (products (market Pending))"
    by (simp add: example_defs owns_supplier_def)
  have b: "Some (9::nat) \<noteq> Some 2" "Some (9::nat) \<noteq> Some (sp_user_id acme_profile)"
    "Some (9::nat) \<noteq> Some (vp_user_id ?v)"
    by (simp_all add: acme_profile_def)
  have o: "\<not> owns_supplier (market Pending) (Some 9) (p_supplier_id rice)"
    by (simp add: example_defs owns_supplier_def)
  from denied_operation_outcomes
         [where d = "market Pending" and c = "Some 9" and flt = "\<lambda>x. True" and i = 40
            and st = Cancelled and pid = 30 and patch = id and uid = 2
            and new_id = 41 and r = "Some Superadmin" and ast = Approved
            and prod_id = 30 and sid = 20 and qty = 1 and up = "Some 10000"
            and ta = "Some 10000" and prow = acme_profile and tid = 41 and vrow = ?v
            and row = rice]
       a p b o
  show ?thesis by blast
qed

text \<open>
  Claim C7 as stated fails. Account 9 is denied the order of the small marketplace by the
  select policies, and what it observes is the empty result, without an error: the same
  answer as from a table with no orders.
\<close>

theorem denial_as_empty_result_counterexample:
  "orders (market Pending) = [rice_order Pending]
   \<and> \<not> orders_policy (market Pending) (Some 9) (rice_order Pending)
   \<and> select_orders (market Pending) (Some 9) (\<lambda>x. True) = Inr []
   \<and> select_orders ((market Pending)\<lparr>orders := []\<rparr>) (Some 9) (\<lambda>x. True) = Inr []
   \<and> select_orders (market Pending) (Some 9) (\<lambda>x. True) \<noteq> Inl PolicyError"
  by (simp add: example_defs select_orders_def orders_policy_def owns_supplier_def)

section \<open>The suppliers row of an account\<close>

lemma no_row_of_account:
  "\<not> list_ex (\<lambda>x. P x \<or> Q x) rows \<Longrightarrow> filter Q rows = []"
  by (induction rows) auto

lemma insert_supplier_one_supplier:
  assumes "one_supplier_per_account d" and "insert_supplier d c i u name e a st = Inr (row, d')"
  shows "one_supplier_per_account d'"
proof -
  from insert_supplier_appends [OF assms(2)] have
    fresh: "\<not> list_ex (\<lambda>s. s_id s = i \<or> s_user_id s = u) (suppliers d)" and
    row: "s_user_id row = u" and d': "d' = d\<lparr>suppliers := suppliers d @ [row]\<rparr>"
    by auto
  from fresh have "u \<notin> set (map s_user_id (suppliers d))"
    by (auto simp: list_ex_iff)
  with assms(1) row d' show ?thesis
    by (simp add: one_supplier_per_account_def)
qed

text \<open>
  Claim C8, as amended. \<^verbatim>\<open>ensureSupplierRecord\<close> keeps at most one suppliers row per
  account. Once a call has returned the id of the caller's row, every further call returns
  the same id and leaves the database as it is. When the caller has no suppliers row and has
  a profile whose \<^verbatim>\<open>business_name\<close> is not null, the call adds one row under the new id,
  with \<^verbatim>\<open>name\<close> the profile's \<^verbatim>\<open>business_name\<close>, \<^verbatim>\<open>contact_email\<close> its
  \<^verbatim>\<open>contact_number\<close>, \<^verbatim>\<open>address\<close> its \<^verbatim>\<open>business_address\<close> and status active.
  When the profile's \<^verbatim>\<open>business_name\<close> is null, or the profile is missing, the call adds
  nothing and returns null.
\<close>

theorem ensureSupplierRecord_idempotent:
  assumes "one_supplier_per_account d"
    and "ensureSupplierRecord d c i = (d', r)"
  shows "one_supplier_per_account d'
       \<and> length (filter (\<lambda>s. s_user_id s = u) (suppliers d')) \<le> 1
       \<and> (r \<noteq> None \<longrightarrow> ensureSupplierRecord d' c j = (d', r))
       \<and> (c = Some uid \<and> select_suppliers d (\<lambda>s. s_user_id s = uid) = []
            \<and> single (select_supplier_profiles d c (\<lambda>p. sp_user_id p = uid)) = Some p
            \<and> sp_business_name p = Some n
            \<and> \<not> list_ex (\<lambda>s. s_id s = i) (suppliers d) \<longrightarrow>
          r = Some i
          \<and> suppliers d' = suppliers d @
              [\<lparr>s_id = i, s_user_id = uid, s_name = n, s_contact_email = sp_contact_number p,
                s_contact_phone = None, s_address = sp_business_address p, s_logo_url = None,
                s_website = None, s_status = Some ''active''\<rparr>])
       \<and> (c = Some uid \<and> select_suppliers d (\<lambda>s. s_user_id s = uid) = []
            \<and> single (select_supplier_profiles d c (\<lambda>p. sp_user_id p = uid)) = Some p
            \<and> sp_business_name p = None \<longrightarrow>
          r = None \<and> d' = d)
       \<and> (c = Some uid \<and> select_suppliers d (\<lambda>s. s_user_id s = uid) = []
            \<and> single (select_supplier_profiles d c (\<lambda>p. sp_user_id p = uid)) = None \<longrightarrow>
          r = None \<and> d' = d)"
proof -
  have inv: "one_supplier_per_account d'"
    using assms
    by (auto simp: ensureSupplierRecord_def split: option.splits sum.splits
        dest: insert_supplier_one_supplier)
  then have "distinct (map s_user_id (suppliers d'))"
    by (simp add: one_supplier_per_account_def)
  then have le: "length (filter (\<lambda>s. s_user_id s = u) (suppliers d')) \<le> 1"
    by (rule distinct_map_filter_le_1)
  have again: "ensureSupplierRecord d' c j = (d', r)" if "r \<noteq> None"
  proof (cases c)
    case None
    with assms(2) that show ?thesis by (simp add: ensureSupplierRecord_def)
  next
    case (Some uid')
    show ?thesis
    proof (cases "single (select_suppliers d (\<lambda>s. s_user_id s = uid'))")
      case (Some s)
      with \<open>c = Some uid'\<close> assms(2) show ?thesis
        by (auto simp: ensureSupplierRecord_def)
    next
      case None
      with \<open>c = Some uid'\<close> assms(2) that obtain pr :: supplier_profile and row where
        ins: "insert_supplier d (Some uid') i uid' (sp_business_name pr) (sp_contact_number pr)
                (sp_business_address pr) (Some ''active'') = Inr (row, d')"
        and r: "r = Some (s_id row)"
        by (auto simp: ensureSupplierRecord_def split: option.splits sum.splits)
      from insert_supplier_appends [OF ins] have
        fresh: "\<not> list_ex (\<lambda>s. s_id s = i \<or> s_user_id s = uid') (suppliers d)" and
        row: "s_user_id row = uid'" and d': "suppliers d' = suppliers d @ [row]"
        by auto
      from no_row_of_account [OF fresh] row d'
      have "select_suppliers d' (\<lambda>s. s_user_id s = uid') = [row]"
        by (simp add: select_suppliers_def)
      with \<open>c = Some uid'\<close> r show ?thesis
        by (simp add: ensureSupplierRecord_def)
    qed
  qed
  have created: "r = Some i \<and> suppliers d' = suppliers d @
              [\<lparr>s_id = i, s_user_id = uid, s_name = n, s_contact_email = sp_contact_number p,
                s_contact_phone = None, s_address = sp_business_address p, s_logo_url = None,
                s_website = None, s_status = Some ''active''\<rparr>]"
    if "c = Some uid" "select_suppliers d (\<lambda>s. s_user_id s = uid) = []"
       "single (select_supplier_profiles d c (\<lambda>p. sp_user_id p = uid)) = Some p"
       "sp_business_name p = Some n" "\<not> list_ex (\<lambda>s. s_id s = i) (suppliers d)"
  proof -
    from that(2) have "\<not> list_ex (\<lambda>s. s_user_id s = uid) (suppliers d)"
      by (simp add: select_suppliers_def filter_empty_conv list_ex_iff)
    with that(5) have "\<not> list_ex (\<lambda>s. s_id s = i \<or> s_user_id s = uid) (suppliers d)"
      by (auto simp: list_ex_iff)
    with that assms(2) show ?thesis
      by (auto simp: ensureSupplierRecord_def insert_supplier_def Let_def)
  qed
  have missing: "r = None \<and> d' = d"
    if "c = Some uid" "select_suppliers d (\<lambda>s. s_user_id s = uid) = []"
       "single (select_supplier_profiles d c (\<lambda>p. sp_user_id p = uid)) = None"
    using that assms(2) by (auto simp: ensureSupplierRecord_def)
  have nameless: "r = None \<and> d' = d"
    if "c = Some uid" "select_suppliers d (\<lambda>s. s_user_id s = uid) = []"
       "single (select_supplier_profiles d c (\<lambda>p. sp_user_id p = uid)) = Some p"
       "sp_business_name p = None"
    using that assms(2) by (auto simp: ensureSupplierRecord_def insert_supplier_def)
  from inv le again created nameless missing show ?thesis by blast
qed

text \<open>
  The supplier of the small marketplace, once with the suppliers row it has, once with that
  row taken away, and once with the business name taken away as well; and the vendor, who
  has no supplier profile.
\<close>

theorem ensureSupplierRecord_idempotent_witness:
  "one_supplier_per_account (market Pending)
   \<and> ensureSupplierRecord (market Pending) (Some 1) 77 = (market Pending, Some 20)
   \<and> ensureSupplierRecord (market Pending) (Some 1) 78 = (market Pending, Some 20)
   \<and> one_supplier_per_account ((market Pending)\<lparr>suppliers := []\<rparr>)
   \<and> suppliers (fst (ensureSupplierRecord ((market Pending)\<lparr>suppliers := []\<rparr>) (Some 1) 77))
       = [\<lparr>s_id = 77, s_user_id = 1, s_name = ''Acme'', s_contact_email = Some ''555'',
           s_contact_phone = None, s_address = Some ''1 Main St'', s_logo_url = None,
           s_website = None, s_status = Some ''active''\<rparr>]
   \<and> snd (ensureSupplierRecord ((market Pending)\<lparr>suppliers := []\<rparr>) (Some 1) 77) = Some 77
   \<and> ensureSupplierRecord (market Pending) (Some 2) 77 = (market Pending, None)
   \<and> one_supplier_per_account nameless_market
   \<and> ensureSupplierRecord nameless_market (Some 1) 77 = (nameless_market, None)"
proof -
  let ?d = "(market Pending)\<lparr>suppliers := []\<rparr>"
  let ?q = "acme_profile\<lparr>sp_business_name := None\<rparr>"
  have i1: "one_supplier_per_account (market Pending)" and i2: "one_supplier_per_account ?d"
    and i3: "one_supplier_per_account nameless_market"
    by (simp_all add: one_supplier_per_account_def example_defs)
  have e1: "ensureSupplierRecord (market Pending) (Some 1) 77 = (market Pending, Some 20)"
    by (simp add: ensureSupplierRecord_def example_defs select_suppliers_def)
  have pre: "Some 1 = Some (1::nat) \<and> select_suppliers ?d (\<lambda>s. s_user_id s = 1) = []
            \<and> single (select_supplier_profiles ?d (Some 1) (\<lambda>p. sp_user_id p = 1)) = Some acme_profile
            \<and> sp_business_name acme_profile = Some ''Acme''
            \<and> \<not> list_ex (\<lambda>s. s_id s = 77) (suppliers ?d)"
    by (simp add: example_defs select_suppliers_def select_supplier_profiles_def
        supplier_profiles_select_policy_def)
  have pre1: "Some 20 \<noteq> (None :: uuid option)"
    by simp
  from ensureSupplierRecord_idempotent [OF i1 e1,
         where u = 1 and j = 78 and uid = 1 and p = acme_profile and n = "''Acme''"] pre1
  have again: "ensureSupplierRecord (market Pending) (Some 1) 78 = (market Pending, Some 20)"
    by blast
  from ensureSupplierRecord_idempotent
         [OF i2 surjective_pairing [of "ensureSupplierRecord ?d (Some 1) 77"],
          where u = 1 and j = 78 and uid = 1 and p = acme_profile and n = "''Acme''"] pre
  have made: "snd (ensureSupplierRecord ?d (Some 1) 77) = Some 77
     \<and> suppliers (fst (ensureSupplierRecord ?d (Some 1) 77)) = suppliers ?d @
              [\<lparr>s_id = 77, s_user_id = 1, s_name = ''Acme'',
                s_contact_email = sp_contact_number acme_profile,
                s_contact_phone = None, s_address = sp_business_address acme_profile,
                s_logo_url = None, s_website = None, s_status = Some ''active''\<rparr>]"
    by blast
  have pre2: "Some 2 = Some (2::nat) \<and> select_suppliers (market Pending) (\<lambda>s. s_user_id s = 2) = []
            \<and> single (select_supplier_profiles (market Pending) (Some 2) (\<lambda>p. sp_user_id p = 2)) = None"
    by (simp add: example_defs select_suppliers_def select_supplier_profiles_def
        supplier_profiles_select_policy_def)
  from ensureSupplierRecord_idempotent
         [OF i1 surjective_pairing [of "ensureSupplierRecord (market Pending) (Some 2) 77"],
          where u = 2 and j = 78 and uid = 2 and p = acme_profile and n = "''Acme''"] pre2
  have none: "ensureSupplierRecord (market Pending) (Some 2) 77 = (market Pending, None)"
    by (metis surjective_pairing)
  have pre3: "Some 1 = Some (1::nat) \<and> select_suppliers nameless_market (\<lambda>s. s_user_id s = 1) = []
            \<and> single (select_supplier_profiles nameless_market (Some 1) (\<lambda>p. sp_user_id p = 1)) = Some ?q
            \<and> sp_business_name ?q = None"
    by (simp add: example_defs select_suppliers_def select_supplier_profiles_def
        supplier_profiles_select_policy_def)
  from ensureSupplierRecord_idempotent
         [OF i3 surjective_pairing [of "ensureSupplierRecord nameless_market (Some 1) 77"],
          where u = 1 and j = 78 and uid = 1 and p = ?q and n = "''Acme''"] pre3
  have nameless: "ensureSupplierRecord nameless_market (Some 1) 77 = (nameless_market, None)"
    by (metis surjective_pairing)
  from i1 i2 i3 e1 again made none nameless show ?thesis
    by (simp add: acme_profile_def)
qed

text \<open>
  Claim C8 as stated fails. The supplier, account 1, has a profile and no suppliers row, and
  the profile's \<^verbatim>\<open>business_name\<close> is null: \<^verbatim>\<open>ensureSupplierRecord\<close> synthesizes
  nothing from the profile (the insert fails on \<^verbatim>\<open>name text not null\<close>), returns null,
  and the account is still without a suppliers row.
\<close>

theorem nameless_profile_counterexample:
  "single (select_supplier_profiles nameless_market (Some 1) (\<lambda>p. sp_user_id p = 1))
     = Some (acme_profile\<lparr>sp_business_name := None\<rparr>)
   \<and> select_suppliers nameless_market (\<lambda>s. s_user_id s = 1) = []
   \<and> insert_supplier nameless_market (Some 1) 77 1 None (Some ''555'') (Some ''1 Main St'')
        (Some ''active'') = Inl (ConstraintError NotNullViolation)
   \<and> ensureSupplierRecord nameless_market (Some 1) 77 = (nameless_market, None)
   \<and> suppliers nameless_market = []"
  by (simp add: example_defs select_suppliers_def select_supplier_profiles_def
      supplier_profiles_select_policy_def ensureSupplierRecord_def insert_supplier_def)

section \<open>Placing an order\<close>




section \<open>The suppliers row the profile trigger creates\<close>

lemma insert_supplier_profile_success:
  assumes "insert_supplier_profile d c row t = Inr d'"
  shows "c = Some (sp_user_id row)"
    and "\<not> list_ex (\<lambda>s. s_id s = t \<or> s_user_id s = sp_user_id row) (suppliers d)"
    and "\<not> list_ex (\<lambda>p. sp_id p = sp_id row \<or> sp_user_id p = sp_user_id row) (supplier_profiles d)"
    and "\<exists>n. sp_business_name row = Some n
           \<and> d' = d\<lparr>supplier_profiles := supplier_profiles d @ [row],
                    suppliers := suppliers d @
                      [\<lparr>s_id = t, s_user_id = sp_user_id row, s_name = n,
                        s_contact_email = sp_contact_number row, s_contact_phone = None,
                        s_address = None, s_logo_url = None, s_website = None,
                        s_status = Some ''active''\<rparr>]\<rparr>"
proof -
  let ?d1 = "d\<lparr>supplier_profiles := supplier_profiles d @ [row]\<rparr>"
  from assms show c: "c = Some (sp_user_id row)"
    and fresh: "\<not> list_ex (\<lambda>p. sp_id p = sp_id row \<or> sp_user_id p = sp_user_id row) (supplier_profiles d)"
    by (auto simp: insert_supplier_profile_def split: if_splits)
  with assms have trig: "create_supplier_for_user ?d1 c row t = Inr d'"
    by (auto simp: insert_supplier_profile_def split: if_splits)
  from no_row_of_account [OF fresh]
  have "filter (\<lambda>p. sp_user_id p = sp_user_id row) (supplier_profiles d) = []" .
  then have "filter (\<lambda>p. supplier_profiles_select_policy c p \<and> sp_user_id p = sp_user_id row)
               (supplier_profiles d) = []"
    by (auto simp: filter_empty_conv)
  with c have sel: "single (select_supplier_profiles ?d1 c (\<lambda>p. sp_user_id p = sp_user_id row))
                      = Some row"
    by (simp add: select_supplier_profiles_def supplier_profiles_select_policy_def)
  from trig sel obtain srow where ins:
    "insert_supplier ?d1 c t (sp_user_id row) (sp_business_name row) (sp_contact_number row)
       None None = Inr (srow, d')"
    by (auto simp: create_supplier_for_user_def Let_def split: sum.splits)
  from insert_supplier_appends [OF ins]
  show "\<not> list_ex (\<lambda>s. s_id s = t \<or> s_user_id s = sp_user_id row) (suppliers d)"
    and "\<exists>n. sp_business_name row = Some n
           \<and> d' = d\<lparr>supplier_profiles := supplier_profiles d @ [row],
                    suppliers := suppliers d @
                      [\<lparr>s_id = t, s_user_id = sp_user_id row, s_name = n,
                        s_contact_email = sp_contact_number row, s_contact_phone = None,
                        s_address = None, s_logo_url = None, s_website = None,
                        s_status = Some ''active''\<rparr>]\<rparr>"
    by auto
qed

lemma insert_user_role_keeps_suppliers:
  "suppliers (ignore_error d (insert_user_role d c i u r st)) = suppliers d"
  "supplier_profiles (ignore_error d (insert_user_role d c i u r st)) = supplier_profiles d"
  by (auto simp: ignore_error_def insert_user_role_def split: option.splits)

lemma insert_vendor_profile_keeps_suppliers:
  "suppliers (ignore_error d (insert_vendor_profile d c row)) = suppliers d"
  "supplier_profiles (ignore_error d (insert_vendor_profile d c row)) = supplier_profiles d"
  by (auto simp: ignore_error_def insert_vendor_profile_def)

lemma insert_supplier_keeps_profiles:
  "supplier_profiles (ignore_error d (map_sum id snd (insert_supplier d c i u name e a st)))
     = supplier_profiles d"
  by (auto simp: ignore_error_def insert_supplier_def Let_def split: option.splits)

lemma insert_supplier_ignore_one_supplier:
  assumes "one_supplier_per_account d"
  shows "one_supplier_per_account
           (ignore_error d (map_sum id snd (insert_supplier d c i u name e a st)))"
proof (cases "insert_supplier d c i u name e a st")
  case (Inl err)
  with assms show ?thesis by (simp add: ignore_error_def)
next
  case (Inr res)
  then obtain row d' where "insert_supplier d c i u name e a st = Inr (row, d')"
    by (cases res) simp
  with insert_supplier_one_supplier [OF assms this] show ?thesis
    by (simp add: ignore_error_def)
qed

lemma insert_supplier_profile_one_supplier:
  assumes "one_supplier_per_account d"
  shows "one_supplier_per_account (ignore_error d (insert_supplier_profile d c row t))"
proof (cases "insert_supplier_profile d c row t")
  case (Inl err)
  with assms show ?thesis by (simp add: ignore_error_def)
next
  case (Inr d')
  from insert_supplier_profile_success(2,4) [OF Inr]
  have "sp_user_id row \<notin> set (map s_user_id (suppliers d))"
    and "map s_user_id (suppliers d') = map s_user_id (suppliers d) @ [sp_user_id row]"
    by (auto simp: list_ex_iff)
  with assms Inr show ?thesis
    by (simp add: ignore_error_def one_supplier_per_account_def)
qed

lemma signUp_one_supplier:
  assumes "one_supplier_per_account d"
  shows "one_supplier_per_account (fst (signUp d session email userData auth ids))"
proof -
  have role: "one_supplier_per_account (ignore_error d (insert_user_role d c i u r st))" for c i u r st
    using assms by (simp add: one_supplier_per_account_def insert_user_role_keeps_suppliers)
  have vendor: "one_supplier_per_account (ignore_error d1 (insert_vendor_profile d1 c row))"
    if "one_supplier_per_account d1" for d1 c row
    using that by (simp add: one_supplier_per_account_def insert_vendor_profile_keeps_suppliers)
  show ?thesis
    using assms role
    by (auto simp: signUp_def Let_def split: option.splits auth_result.splits
        intro!: insert_supplier_ignore_one_supplier insert_supplier_profile_one_supplier vendor)
qed

text \<open>The supplier branch of \<^verbatim>\<open>signUp\<close>, statement by statement.\<close>

lemma signUp_supplier_branch:
  assumes "single_data (select_user_roles d session (\<lambda>ur. Some (ur_user_id ur) = ud_id userData)) = None"
    and "finalRole email userData = Some Supplier"
  shows "fst (signUp d session email userData (AuthOk (Some uid)) ids) =
     (let d1 = ignore_error d
                 (insert_user_role d (Some uid) (role_row_id ids) uid (Some Supplier)
                    (signUp_approval_status email userData));
          d2 = ignore_error d1
                 (insert_supplier_profile d1 (Some uid)
                    \<lparr>sp_id = profile_row_id ids, sp_user_id = uid,
                     sp_full_name = ud_full_name userData,
                     sp_business_name = ud_business_name userData,
                     sp_business_type = ud_business_type userData,
                     sp_business_address = ud_business_address userData,
                     sp_contact_number = ud_contact_number userData,
                     sp_fssai_license = ud_fssai_license userData,
                     sp_other_certifications = ud_other_certifications userData,
                     sp_avatar_url = ud_avatar_url userData\<rparr>
                    (trigger_supplier_id ids))
      in ignore_error d2
           (map_sum id snd
              (insert_supplier d2 (Some uid) (supplier_row_id ids) uid
                 (ud_business_name userData) (ud_contact_number userData)
                 (ud_business_address userData) (Some ''active''))))"
  using assms by (simp add: signUp_def Let_def)

lemma signUp_profiles:
  "supplier_profiles (fst (signUp d session email userData auth ids)) = supplier_profiles d
   \<or> (\<exists>uid. auth = AuthOk (Some uid) \<and> finalRole email userData = Some Supplier
        \<and> single_data (select_user_roles d session (\<lambda>ur. Some (ur_user_id ur) = ud_id userData)) = None)"
  by (auto simp: signUp_def Let_def insert_user_role_keeps_suppliers
      insert_vendor_profile_keeps_suppliers split: option.splits auth_result.splits)

lemma collision_after_profile_insert:
  assumes "insert_supplier_profile d c row t = Inr d1"
  shows "insert_supplier d1 c i (sp_user_id row) (sp_business_name row) e a st
           = Inl (ConstraintError UniqueViolation)"
proof -
  from insert_supplier_profile_success(1,4) [OF assms] obtain n where
    "c = Some (sp_user_id row)" "sp_business_name row = Some n"
    "list_ex (\<lambda>s. s_id s = i \<or> s_user_id s = sp_user_id row) (suppliers d1)"
    by (auto simp: list_ex_iff)
  then show ?thesis by (simp add: insert_supplier_def)
qed

text \<open>
  Claim C10. A successful insert into supplier\_profiles has added, through
  \<^verbatim>\<open>create_supplier_trigger\<close>, one suppliers row for the same account, with \<^verbatim>\<open>name\<close>
  the profile's \<^verbatim>\<open>business_name\<close> and \<^verbatim>\<open>contact_email\<close> its \<^verbatim>\<open>contact_number\<close>; an
  insert into suppliers for that account with that name then fails on
  \<^verbatim>\<open>user_id ... unique\<close>. In \<^verbatim>\<open>signUp\<close>: when the sign-up has added a profile, the
  suppliers table has gained the trigger's row and nothing else, and the explicit suppliers
  insert of \<^verbatim>\<open>signUp\<close> is the one that fails. Every sign-up keeps at most one suppliers
  row per account.
\<close>

theorem trigger_row_blocks_explicit_insert:
  "(insert_supplier_profile d c row t = Inr dp \<longrightarrow>
      (\<exists>s. suppliers dp = suppliers d @ [s] \<and> s_id s = t \<and> s_user_id s = sp_user_id row
            \<and> Some (s_name s) = sp_business_name row
            \<and> s_contact_email s = sp_contact_number row)
      \<and> insert_supplier dp c i (sp_user_id row) (sp_business_name row) e a st
          = Inl (ConstraintError UniqueViolation))
   \<and> (signUp d session email userData auth ids = (d', err)
        \<and> supplier_profiles d' \<noteq> supplier_profiles d \<longrightarrow>
      (\<exists>uid s. auth = AuthOk (Some uid)
            \<and> suppliers d' = suppliers d @ [s]
            \<and> s_id s = trigger_supplier_id ids \<and> s_user_id s = uid
            \<and> Some (s_name s) = ud_business_name userData
            \<and> s_contact_email s = ud_contact_number userData
            \<and> s_address s = None
            \<and> insert_supplier d' (Some uid) (supplier_row_id ids) uid
                 (ud_business_name userData) (ud_contact_number userData)
                 (ud_business_address userData) (Some ''active'')
               = Inl (ConstraintError UniqueViolation)))
   \<and> (one_supplier_per_account d \<longrightarrow>
        one_supplier_per_account (fst (signUp d session email userData auth ids)))"
proof (intro conjI impI)
  assume ok: "insert_supplier_profile d c row t = Inr dp"
  from insert_supplier_profile_success(4) [OF ok]
  show "\<exists>s. suppliers dp = suppliers d @ [s] \<and> s_id s = t \<and> s_user_id s = sp_user_id row
            \<and> Some (s_name s) = sp_business_name row
            \<and> s_contact_email s = sp_contact_number row"
    by auto
  from ok show "insert_supplier dp c i (sp_user_id row) (sp_business_name row) e a st
          = Inl (ConstraintError UniqueViolation)"
    by (rule collision_after_profile_insert)
next
  assume "one_supplier_per_account d"
  then show "one_supplier_per_account (fst (signUp d session email userData auth ids))"
    by (rule signUp_one_supplier)
next
  assume a: "signUp d session email userData auth ids = (d', err)
        \<and> supplier_profiles d' \<noteq> supplier_profiles d"
  then have d': "d' = fst (signUp d session email userData auth ids)"
    by simp
  with a signUp_profiles [of d session email userData auth ids]
  obtain uid where auth: "auth = AuthOk (Some uid)"
    and sup: "finalRole email userData = Some Supplier"
    and pre: "single_data (select_user_roles d session (\<lambda>ur. Some (ur_user_id ur) = ud_id userData)) = None"
    by auto
  define d1 where "d1 = ignore_error d
                 (insert_user_role d (Some uid) (role_row_id ids) uid (Some Supplier)
                    (signUp_approval_status email userData))"
  define prow where "prow = \<lparr>sp_id = profile_row_id ids, sp_user_id = uid,
                     sp_full_name = ud_full_name userData,
                     sp_business_name = ud_business_name userData,
                     sp_business_type = ud_business_type userData,
                     sp_business_address = ud_business_address userData,
                     sp_contact_number = ud_contact_number userData,
                     sp_fssai_license = ud_fssai_license userData,
                     sp_other_certifications = ud_other_certifications userData,
                     sp_avatar_url = ud_avatar_url userData\<rparr>"
  define d2 where "d2 = ignore_error d1
                 (insert_supplier_profile d1 (Some uid) prow (trigger_supplier_id ids))"
  have d3: "d' = ignore_error d2
           (map_sum id snd
              (insert_supplier d2 (Some uid) (supplier_row_id ids) uid
                 (ud_business_name userData) (ud_contact_number userData)
                 (ud_business_address userData) (Some ''active'')))"
    unfolding d' auth signUp_supplier_branch [OF pre sup] d1_def d2_def prow_def Let_def ..
  have same1: "supplier_profiles d1 = supplier_profiles d" "suppliers d1 = suppliers d"
    by (simp_all add: d1_def insert_user_role_keeps_suppliers)
  have "supplier_profiles d' = supplier_profiles d2"
    by (simp add: d3 insert_supplier_keeps_profiles)
  with a same1 have changed: "supplier_profiles d2 \<noteq> supplier_profiles d1"
    by simp
  then obtain dd where ok: "insert_supplier_profile d1 (Some uid) prow (trigger_supplier_id ids) = Inr dd"
    by (cases "insert_supplier_profile d1 (Some uid) prow (trigger_supplier_id ids)")
       (auto simp: d2_def ignore_error_def)
  then have dd: "dd = d2"
    by (simp add: d2_def ignore_error_def)
  have names: "sp_user_id prow = uid" "sp_business_name prow = ud_business_name userData"
    "sp_contact_number prow = ud_contact_number userData"
    by (simp_all add: prow_def)
  from collision_after_profile_insert [OF ok, of "supplier_row_id ids"
      "ud_contact_number userData" "ud_business_address userData" "Some ''active''"]
  have coll: "insert_supplier d2 (Some uid) (supplier_row_id ids) uid
                 (ud_business_name userData) (ud_contact_number userData)
                 (ud_business_address userData) (Some ''active'')
               = Inl (ConstraintError UniqueViolation)"
    by (simp add: names dd)
  then have "d' = d2"
    by (simp add: d3 ignore_error_def)
  moreover from insert_supplier_profile_success(4) [OF ok] obtain s where
    "suppliers d2 = suppliers d1 @ [s]" "s_id s = trigger_supplier_id ids" "s_user_id s = uid"
    "Some (s_name s) = ud_business_name userData" "s_contact_email s = ud_contact_number userData"
    "s_address s = None"
    by (auto simp: names dd)
  ultimately show "\<exists>uid s. auth = AuthOk (Some uid)
            \<and> suppliers d' = suppliers d @ [s]
            \<and> s_id s = trigger_supplier_id ids \<and> s_user_id s = uid
            \<and> Some (s_name s) = ud_business_name userData
            \<and> s_contact_email s = ud_contact_number userData
            \<and> s_address s = None
            \<and> insert_supplier d' (Some uid) (supplier_row_id ids) uid
                 (ud_business_name userData) (ud_contact_number userData)
                 (ud_business_address userData) (Some ''active'')
               = Inl (ConstraintError UniqueViolation)"
    using auth coll same1 by auto
qed

text \<open>
  Account 1 signs up as a supplier on the empty database: the profile insert creates the
  suppliers row with id 20 and no address, and the explicit insert with id 21 fails.
\<close>

theorem trigger_row_blocks_explicit_insert_witness:
  "insert_supplier_profile empty_db (Some 1) acme_profile 20
     = Inr (empty_db\<lparr>supplier_profiles := [acme_profile], suppliers := [acme_supplier]\<rparr>)
   \<and> insert_supplier (empty_db\<lparr>supplier_profiles := [acme_profile], suppliers := [acme_supplier]\<rparr>)
        (Some 1) 21 1 (Some ''Acme'') (Some ''555'') (Some ''1 Main St'') (Some ''active'')
       = Inl (ConstraintError UniqueViolation)
   \<and> supplier_profiles (fst (signUp empty_db None ''ann@acme.example'' (form Supplier)
                              (AuthOk (Some 1)) ids0)) \<noteq> supplier_profiles empty_db
   \<and> (\<exists>s. suppliers (fst (signUp empty_db None ''ann@acme.example'' (form Supplier)
                              (AuthOk (Some 1)) ids0)) = [s]
           \<and> s_id s = 20 \<and> s_user_id s = 1 \<and> s_name s = ''Acme'' \<and> s_address s = None)
   \<and> one_supplier_per_account empty_db
   \<and> one_supplier_per_account (fst (signUp empty_db None ''ann@acme.example'' (form Supplier)
                              (AuthOk (Some 1)) ids0))"
proof -
  let ?d1 = "empty_db\<lparr>supplier_profiles := [acme_profile], suppliers := [acme_supplier]\<rparr>"
  let ?s = "signUp empty_db None ''ann@acme.example'' (form Supplier) (AuthOk (Some 1)) ids0"
  have ok: "insert_supplier_profile empty_db (Some 1) acme_profile 20 = Inr ?d1"
    by (simp add: insert_supplier_profile_def create_supplier_for_user_def
        select_supplier_profiles_def supplier_profiles_select_policy_def insert_supplier_def
        Let_def example_defs)
  have ch: "supplier_profiles (fst ?s) \<noteq> supplier_profiles empty_db"
    by code_simp
  have inv: "one_supplier_per_account empty_db"
    by (simp add: one_supplier_per_account_def empty_db_def)
  have vals: "sp_user_id acme_profile = 1" "sp_business_name acme_profile = Some ''Acme''"
    "suppliers empty_db = []" "trigger_supplier_id ids0 = 20"
    "ud_business_name (form Supplier) = Some ''Acme''"
    by (simp_all add: example_defs)
  from trigger_row_blocks_explicit_insert
         [where d = empty_db and c = "Some 1" and row = acme_profile and t = 20 and dp = ?d1
            and i = 21 and e = "Some ''555''" and a = "Some ''1 Main St''"
            and st = "Some ''active''" and session = None and email = "''ann@acme.example''"
            and userData = "form Supplier" and auth = "AuthOk (Some 1)" and ids = ids0
            and d' = "fst ?s" and err = "snd ?s"]
       ok ch inv
  show ?thesis
    by (auto simp: vals)
qed

end
